theory Spec2Isabelle
  imports Main "HOL-Library.Monad_Syntax"
begin

section \<open>JavaScript values as the prompt builder sees them\<close>

text \<open>
  The prompt builder of \<^verbatim>\<open>src/systems/generation/promptBuilder.js\<close> works on values that
  come out of \<^verbatim>\<open>JSON.parse\<close> or out of the extension's settings: \<^verbatim>\<open>undefined\<close>,
  \<^verbatim>\<open>null\<close>, booleans, numbers, strings, arrays and plain objects. They are finite trees.

  \<^item> The code prints numbers, tests them for truth and compares them, and does no
    arithmetic on them. A number that is an integer of magnitude below \<open>10^21\<close> is
    \<open>JNum n\<close>: these are the numbers that print as their decimal digits (negative zero
    is \<open>JNum 0\<close>; a \<open>JNum n\<close> with \<open>n\<close> outside this range, or with an \<open>n\<close> that is no
    JavaScript number, stands for no value). Every other number, that is a fraction, a
    number of magnitude \<open>10^21\<close> or more, an infinity or NaN, is \<open>JFloat s\<close>, where
    \<open>s\<close> is the text that \<^verbatim>\<open>Number.prototype.toString\<close> gives it, such as \<^verbatim>\<open>2.5\<close>,
    \<^verbatim>\<open>1e+21\<close> or \<^verbatim>\<open>NaN\<close>; two such numbers are equal exactly when their texts are,
    NaN apart.
  \<^item> A string is a list of characters; upper and lower case are modelled on the ASCII
    letters and white space on the ASCII white space characters.
  \<^item> An object is the list of its own enumerable properties, in the order in which
    \<^verbatim>\<open>Object.entries\<close> enumerates them, with pairwise different keys. No value is a
    function: a member named \<^verbatim>\<open>toString\<close> that an object has of its own hides the
    inherited method and cannot be called.
  \<^item> A thrown exception is the result \<open>None\<close>; a function whose body can throw returns
    an \<open>option\<close>.
\<close>

datatype jv =
    JUndef
  | JNull
  | JBool bool
  | JNum int
  | JFloat string
  | JStr string
  | JArr "jv list"
  | JObj "(string \<times> jv) list"

text \<open>
  The two services of the host that the model does not compute: \<^verbatim>\<open>JSON.parse\<close>
  (\<open>None\<close> when it throws a SyntaxError) and the numeric reading of a text in
  \<^verbatim>\<open>s > 1\<close>.
\<close>

record host =
  JSON_parse :: "string \<Rightarrow> jv option"
  str_gt1 :: "string \<Rightarrow> bool"

subsection \<open>Printing numbers\<close>

definition digit_char :: "nat \<Rightarrow> char" where
  "digit_char d = ''0123456789'' ! d"

function show_nat :: "nat \<Rightarrow> string" where
  "show_nat n = (if n < 10 then [digit_char n] else show_nat (n div 10) @ [digit_char (n mod 10)])"
  by pat_completeness auto
termination
  by (relation "measure id") auto

declare show_nat.simps [simp del]

definition show_int :: "int \<Rightarrow> string" where
  "show_int i = (if i < 0 then CHR ''-'' # show_nat (nat (- i)) else show_nat (nat i))"

subsection \<open>Primitive operations\<close>

fun truthy :: "jv \<Rightarrow> bool" where
  "truthy JUndef = False"
| "truthy JNull = False"
| "truthy (JBool b) = b"
| "truthy (JNum n) = (n \<noteq> 0)"
| "truthy (JFloat s) = (s \<noteq> ''NaN'')"
| "truthy (JStr s) = (s \<noteq> [])"
| "truthy (JArr xs) = True"
| "truthy (JObj kvs) = True"

fun typeof :: "jv \<Rightarrow> string" where
  "typeof JUndef = ''undefined''"
| "typeof JNull = ''object''"
| "typeof (JBool b) = ''boolean''"
| "typeof (JNum n) = ''number''"
| "typeof (JFloat s) = ''number''"
| "typeof (JStr s) = ''string''"
| "typeof (JArr xs) = ''object''"
| "typeof (JObj kvs) = ''object''"

fun isArray :: "jv \<Rightarrow> bool" where
  "isArray (JArr xs) = True"
| "isArray v = False"

text \<open>\<^verbatim>\<open>a.join(sep)\<close> on an array of strings.\<close>

fun join :: "string \<Rightarrow> string list \<Rightarrow> string" where
  "join sep [] = []"
| "join sep [x] = x"
| "join sep (x # y # ys) = x @ sep @ join sep (y # ys)"

text \<open>\<^verbatim>\<open>xs.map(f)\<close> where \<open>f\<close> can throw, and a \<^verbatim>\<open>for ... of\<close> loop that updates a
  local variable and can throw.\<close>

fun mapM :: "('a \<Rightarrow> 'b option) \<Rightarrow> 'a list \<Rightarrow> 'b list option" where
  "mapM f [] = Some []"
| "mapM f (x # xs) = do { y \<leftarrow> f x; ys \<leftarrow> mapM f xs; Some (y # ys) }"

fun for_of :: "'a list \<Rightarrow> 's \<Rightarrow> ('s \<Rightarrow> 'a \<Rightarrow> 's option) \<Rightarrow> 's option" where
  "for_of [] s body = Some s"
| "for_of (x # xs) s body = do { s' \<leftarrow> body s x; for_of xs s' body }"

lemma mapM_cong [fundef_cong]:
  "xs = ys \<Longrightarrow> (\<And>x. x \<in> set ys \<Longrightarrow> f x = g x) \<Longrightarrow> mapM f xs = mapM g ys"
  by (induction ys arbitrary: xs) auto

lemma for_of_cong [fundef_cong]:
  "xs = ys \<Longrightarrow> s = t \<Longrightarrow> (\<And>a x. x \<in> set ys \<Longrightarrow> body a x = body' a x)
    \<Longrightarrow> for_of xs s body = for_of ys t body'"
  by (induction ys arbitrary: xs s t) (auto intro: Option.bind_cong)

text \<open>
  \<^verbatim>\<open>String(v)\<close>, which is also what a template literal, \<^verbatim>\<open>+\<close> on a string and the use
  of a value as a property key do to the value. An array prints its elements separated
  by commas, \<^verbatim>\<open>null\<close> and \<^verbatim>\<open>undefined\<close> elements as nothing. An object is printed by
  its \<^verbatim>\<open>toString\<close> method: the inherited one gives \<^verbatim>\<open>[object Object]\<close>; when the
  object has a member of its own by that name, the member is no function, the inherited
  \<^verbatim>\<open>valueOf\<close> gives no primitive value either, and the conversion throws a TypeError.
\<close>

fun String :: "jv \<Rightarrow> string option" where
  "String JUndef = Some ''undefined''"
| "String JNull = Some ''null''"
| "String (JBool b) = Some (if b then ''true'' else ''false'')"
| "String (JNum n) = Some (show_int n)"
| "String (JFloat s) = Some s"
| "String (JStr s) = Some s"
| "String (JArr xs) = do {
     items \<leftarrow> mapM (\<lambda>x. if x = JUndef \<or> x = JNull then Some [] else String x) xs;
     Some (join '','' items) }"
| "String (JObj kvs) =
     (if ''toString'' \<in> set (map fst kvs) then None else Some ''[object Object]'')"

text \<open>The keys an array or a string has besides \<^verbatim>\<open>length\<close>: the indices, printed.\<close>

definition index_keys :: "nat \<Rightarrow> string list" where
  "index_keys n = map show_nat [0..<n]"

definition index_of_key :: "nat \<Rightarrow> string \<Rightarrow> nat option" where
  "index_of_key n k = List.find (\<lambda>i. show_nat i = k) [0..<n]"

text \<open>
  \<^verbatim>\<open>Object.entries(v)\<close>: a TypeError on \<^verbatim>\<open>null\<close> and \<^verbatim>\<open>undefined\<close>, the indexed
  elements of an array or the characters of a string, nothing for a number or a boolean.
\<close>

fun Object_entries :: "jv \<Rightarrow> (string \<times> jv) list option" where
  "Object_entries JUndef = None"
| "Object_entries JNull = None"
| "Object_entries (JObj kvs) = Some kvs"
| "Object_entries (JArr xs) = Some (zip (index_keys (length xs)) xs)"
| "Object_entries (JStr s) = Some (zip (index_keys (length s)) (map (\<lambda>c. JStr [c]) s))"
| "Object_entries v = Some []"

definition Object_keys :: "jv \<Rightarrow> string list option" where
  "Object_keys v = map_option (map fst) (Object_entries v)"

text \<open>
  \<^verbatim>\<open>v[k]\<close> and \<^verbatim>\<open>v.k\<close>: a TypeError on \<^verbatim>\<open>null\<close> and \<^verbatim>\<open>undefined\<close>, the own
  property of an object, the element or the length of an array or string, and
  \<^verbatim>\<open>undefined\<close> for every other key. The members inherited from the prototypes, such
  as \<^verbatim>\<open>constructor\<close>, are not modelled: none of the fixed names the code reads is one,
  and the keys it takes from the configuration (the names of the custom status fields,
  the ids of the custom character fields) are taken to be none either.
\<close>

definition lookup :: "(string \<times> jv) list \<Rightarrow> string \<Rightarrow> jv" where
  "lookup kvs k = (case map_of kvs k of Some v \<Rightarrow> v | None \<Rightarrow> JUndef)"

fun js_get :: "jv \<Rightarrow> string \<Rightarrow> jv option" where
  "js_get JUndef k = None"
| "js_get JNull k = None"
| "js_get (JObj kvs) k = Some (lookup kvs k)"
| "js_get (JArr xs) k =
     Some (if k = ''length'' then JNum (int (length xs))
           else case index_of_key (length xs) k of Some i \<Rightarrow> xs ! i | None \<Rightarrow> JUndef)"
| "js_get (JStr s) k =
     Some (if k = ''length'' then JNum (int (length s))
           else case index_of_key (length s) k of Some i \<Rightarrow> JStr [s ! i] | None \<Rightarrow> JUndef)"
| "js_get v k = Some JUndef"

text \<open>\<^verbatim>\<open>v?.k\<close>: \<^verbatim>\<open>undefined\<close> instead of the TypeError.\<close>

definition js_get_opt :: "jv \<Rightarrow> string \<Rightarrow> jv" where
  "js_get_opt v k = (case js_get v k of Some x \<Rightarrow> x | None \<Rightarrow> JUndef)"

text \<open>\<^verbatim>\<open>k in v\<close>: a TypeError when \<open>v\<close> is not an object.\<close>

fun js_in :: "string \<Rightarrow> jv \<Rightarrow> bool option" where
  "js_in k (JObj kvs) = Some (k \<in> set (map fst kvs))"
| "js_in k (JArr xs) = Some (k = ''length'' \<or> k \<in> set (index_keys (length xs)))"
| "js_in k v = None"

text \<open>
  \<^verbatim>\<open>v > 1\<close>: the value is turned into a number first; \<^verbatim>\<open>undefined\<close> gives NaN,
  \<^verbatim>\<open>null\<close> gives 0, a boolean 0 or 1, a string its numeric reading. An array or an
  object is printed first, which throws where \<^verbatim>\<open>String\<close> throws; the printed form of an
  array is then read as a number, and the one of an object is no number.
\<close>

fun js_gt1 :: "host \<Rightarrow> jv \<Rightarrow> bool option" where
  "js_gt1 H JUndef = Some False"
| "js_gt1 H JNull = Some False"
| "js_gt1 H (JBool b) = Some False"
| "js_gt1 H (JNum n) = Some (n > 1)"
| "js_gt1 H (JFloat s) = Some (str_gt1 H s)"
| "js_gt1 H (JStr s) = Some (str_gt1 H s)"
| "js_gt1 H (JArr xs) = do { s \<leftarrow> String (JArr xs); Some (str_gt1 H s) }"
| "js_gt1 H (JObj kvs) = do { s \<leftarrow> String (JObj kvs); Some False }"

text \<open>\<^verbatim>\<open>a || b\<close> on values.\<close>

definition js_or :: "jv \<Rightarrow> jv \<Rightarrow> jv" where
  "js_or a b = (if truthy a then a else b)"

subsection \<open>The field value resolver of the context formatter\<close>

definition array_map :: "(jv \<Rightarrow> 'b option) \<Rightarrow> jv \<Rightarrow> 'b list option" where
  "array_map f v = (case v of JArr xs \<Rightarrow> mapM f xs | _ \<Rightarrow> None)"

lemma array_map_cong [fundef_cong]:
  "v = w \<Longrightarrow> (\<And>x xs. w = JArr xs \<Longrightarrow> x \<in> set xs \<Longrightarrow> f x = g x) \<Longrightarrow> array_map f v = array_map g w"
  unfolding array_map_def by (auto split: jv.splits intro: mapM_cong)

definition Boolean_str :: "string \<Rightarrow> bool" where
  "Boolean_str s = (s \<noteq> [])"

lemma size_member_obj: "(k, v) \<in> set kvs \<Longrightarrow> size v < size (JObj kvs)"
  by (induction kvs) auto

lemma size_member_arr: "x \<in> set xs \<Longrightarrow> size x < size (JArr xs)"
  by (induction xs) auto

lemma is_plain_object: "js_in k field = Some b \<Longrightarrow> \<not> isArray field \<Longrightarrow> \<exists>kvs. field = JObj kvs"
  by (cases field) auto

lemma size_js_get:
  assumes "js_in k field = Some b" and "\<not> isArray field" and "js_get field k' = Some x"
  shows "size x < size field"
proof -
  from assms(1,2) obtain kvs where f: "field = JObj kvs"
    using is_plain_object by blast
  show ?thesis
  proof (cases "map_of kvs k'")
    case None
    with assms(3) f show ?thesis by (simp add: lookup_def)
  next
    case (Some v)
    then have "(k', v) \<in> set kvs" by (rule map_of_SomeD)
    then have "size v < size (JObj kvs)" by (rule size_member_obj)
    with assms(3) f Some show ?thesis by (simp add: lookup_def)
  qed
qed

lemma size_Object_entries:
  assumes "js_in k field = Some b" and "\<not> isArray field"
    and "Object_entries field = Some es" and "(k', y) \<in> set es"
  shows "size y < size field"
proof -
  from assms(1,2) obtain kvs where f: "field = JObj kvs"
    using is_plain_object by blast
  with assms(3,4) have "(k', y) \<in> set kvs" by simp
  then show ?thesis unfolding f by (rule size_member_obj)
qed

lemma locked_guard:
  assumes "(if truthy field \<and> typeof field = ''object'' \<and> \<not> isArray field
            then js_in ''value'' field else Some False) = Some True"
  shows "js_in ''value'' field = Some True \<and> \<not> isArray field"
  using assms by (auto split: if_splits)

function getValue :: "host \<Rightarrow> jv \<Rightarrow> string option" where
  "getValue H field =
    (if field = JNull \<or> field = JUndef then Some []
     else do {
       locked \<leftarrow> (if truthy field \<and> typeof field = ''object'' \<and> \<not> isArray field
                  then js_in ''value'' field else Some False);
       if locked then do { v \<leftarrow> js_get field ''value''; getValue H v }
       else if typeof field \<noteq> ''object'' then String field
       else if isArray field then do {
         items \<leftarrow> array_map (getValue H) field;
         Some (join '', '' (filter Boolean_str items)) }
       else if truthy field \<and> typeof field = ''object'' then do {
         hasMood \<leftarrow> js_in ''mood'' field;
         if hasMood then do {
           m \<leftarrow> js_get field ''mood'';
           mood \<leftarrow> getValue H m;
           entries \<leftarrow> Object_entries field;
           statusParts \<leftarrow> for_of entries (if mood \<noteq> [] then [mood] else [])
             (\<lambda>statusParts (key, val).
                if key \<noteq> ''mood'' then do {
                  fieldValue \<leftarrow> getValue H val;
                  Some (if fieldValue \<noteq> [] \<and> fieldValue \<noteq> ''None''
                        then statusParts @ [fieldValue] else statusParts) }
                else Some statusParts);
           Some (join '' - '' statusParts) }
         else do {
           hasName \<leftarrow> js_in ''name'' field;
           if hasName then do {
             n \<leftarrow> js_get field ''name'';
             name \<leftarrow> getValue H n;
             hasQuantity \<leftarrow> js_in ''quantity'' field;
             quantity \<leftarrow> js_get field ''quantity'';
             more \<leftarrow> (if hasQuantity then js_gt1 H quantity else Some False);
             if more then do {
               q \<leftarrow> String quantity;
               Some (name @ '' (x'' @ q @ '')'') }
             else Some name }
           else do {
             hasTitle \<leftarrow> js_in ''title'' field;
             if hasTitle then do { t \<leftarrow> js_get field ''title''; getValue H t }
             else do {
               hasStart \<leftarrow> js_in ''start'' field;
               hasEnd \<leftarrow> (if hasStart then js_in ''end'' field else Some False);
               if hasStart \<and> hasEnd then do {
                 s \<leftarrow> js_get field ''start'';
                 start \<leftarrow> getValue H s;
                 e \<leftarrow> js_get field ''end'';
                 end' \<leftarrow> getValue H e;
                 Some (start @ '' - '' @ end') }
               else do {
                 hasEmoji \<leftarrow> js_in ''emoji'' field;
                 hasForecast \<leftarrow> (if hasEmoji then js_in ''forecast'' field else Some False);
                 if hasEmoji \<and> hasForecast then do {
                   e \<leftarrow> js_get field ''emoji'';
                   emoji \<leftarrow> getValue H e;
                   f \<leftarrow> js_get field ''forecast'';
                   forecast \<leftarrow> getValue H f;
                   Some (emoji @ '' '' @ forecast) }
                 else do {
                   keys \<leftarrow> Object_keys field;
                   if length keys > 0 \<and> length keys \<le> 3 then do {
                     vals \<leftarrow> mapM (\<lambda>k. do {
                         x \<leftarrow> js_get field k;
                         val \<leftarrow> getValue H x;
                         Some (if val \<noteq> [] then k @ '': '' @ val else []) }) keys;
                     if length (filter Boolean_str vals) > 0
                     then Some (join '', '' (filter Boolean_str vals))
                     else Some [] }
                   else Some [] } } } } } }
       else Some [] })"
  by pat_completeness auto
termination
  apply (relation "measure (\<lambda>(H, v). size v)")
  apply simp
  subgoal for H field a aa
    using locked_guard [of field] by (auto intro: size_js_get)
  subgoal by (auto dest: size_member_arr)
  subgoal by (auto intro: size_js_get)
  subgoal by (auto intro: size_Object_entries)
  subgoal by (auto intro: size_js_get)
  subgoal by (auto intro: size_js_get)
  subgoal by (auto intro: size_js_get)
  subgoal by (auto intro: size_js_get)
  subgoal by (auto intro: size_js_get)
  subgoal by (auto intro: size_js_get)
  subgoal by (auto intro: size_js_get)
  done

declare getValue.simps [simp del]

lemma getValue_JNull: "getValue H JNull = Some []"
  by (subst getValue.simps) simp

lemma getValue_JUndef: "getValue H JUndef = Some []"
  by (subst getValue.simps) simp

lemma getValue_JBool: "getValue H (JBool b) = Some (if b then ''true'' else ''false'')"
  by (subst getValue.simps) simp

lemma getValue_JNum: "getValue H (JNum n) = Some (show_int n)"
  by (subst getValue.simps) simp

lemma getValue_JFloat: "getValue H (JFloat t) = Some t"
  by (subst getValue.simps) simp

lemma getValue_JStr: "getValue H (JStr s) = Some s"
  by (subst getValue.simps) simp

lemma getValue_JArr:
  "getValue H (JArr xs) = do { items \<leftarrow> mapM (getValue H) xs; Some (join '', '' (filter Boolean_str items)) }"
  by (subst getValue.simps) (simp add: array_map_def)

lemma getValue_locked:
  "''value'' \<in> set (map fst kvs) \<Longrightarrow> getValue H (JObj kvs) = getValue H (lookup kvs ''value'')"
  by (subst getValue.simps) simp

lemma getValue_JObj:
  "getValue H (JObj kvs) =
    (let has = (\<lambda>k. k \<in> set (map fst kvs)) in
     if has ''value'' then getValue H (lookup kvs ''value'')
     else if has ''mood'' then do {
       mood \<leftarrow> getValue H (lookup kvs ''mood'');
       statusParts \<leftarrow> for_of kvs (if mood \<noteq> [] then [mood] else [])
         (\<lambda>statusParts (key, val).
            if key \<noteq> ''mood'' then do {
              fieldValue \<leftarrow> getValue H val;
              Some (if fieldValue \<noteq> [] \<and> fieldValue \<noteq> ''None''
                    then statusParts @ [fieldValue] else statusParts) }
            else Some statusParts);
       Some (join '' - '' statusParts) }
     else if has ''name'' then do {
       name \<leftarrow> getValue H (lookup kvs ''name'');
       more \<leftarrow> (if has ''quantity'' then js_gt1 H (lookup kvs ''quantity'') else Some False);
       if more then do {
         q \<leftarrow> String (lookup kvs ''quantity'');
         Some (name @ '' (x'' @ q @ '')'') }
       else Some name }
     else if has ''title'' then getValue H (lookup kvs ''title'')
     else if has ''start'' \<and> has ''end'' then do {
       start \<leftarrow> getValue H (lookup kvs ''start'');
       end' \<leftarrow> getValue H (lookup kvs ''end'');
       Some (start @ '' - '' @ end') }
     else if has ''emoji'' \<and> has ''forecast'' then do {
       emoji \<leftarrow> getValue H (lookup kvs ''emoji'');
       forecast \<leftarrow> getValue H (lookup kvs ''forecast'');
       Some (emoji @ '' '' @ forecast) }
     else if length kvs > 0 \<and> length kvs \<le> 3 then do {
       vals \<leftarrow> mapM (\<lambda>k. do {
           val \<leftarrow> getValue H (lookup kvs k);
           Some (if val \<noteq> [] then k @ '': '' @ val else []) }) (map fst kvs);
       if length (filter Boolean_str vals) > 0
       then Some (join '', '' (filter Boolean_str vals)) else Some [] }
     else Some [])"
  apply (subst getValue.simps)
  apply (simp add: Object_keys_def Let_def Boolean_str_def del: set_map)
  done

lemmas getValue_eqs = getValue_JNull getValue_JUndef getValue_JBool getValue_JNum
  getValue_JFloat getValue_JStr getValue_JArr getValue_JObj

subsection \<open>The field value resolver of the historical formatter\<close>

text \<open>
  \<^verbatim>\<open>formatHistoricalTrackerData\<close> has a \<^verbatim>\<open>getValue\<close> of its own: the same first four
  rules, then the time range, the weather, the named entity and the title, and no
  status rule and no generic fallback.
\<close>

function getValue_historical :: "host \<Rightarrow> jv \<Rightarrow> string option" where
  "getValue_historical H field =
    (if field = JNull \<or> field = JUndef then Some []
     else do {
       locked \<leftarrow> (if truthy field \<and> typeof field = ''object'' \<and> \<not> isArray field
                  then js_in ''value'' field else Some False);
       if locked then do { v \<leftarrow> js_get field ''value''; getValue_historical H v }
       else if typeof field \<noteq> ''object'' then String field
       else if isArray field then do {
         items \<leftarrow> array_map (getValue_historical H) field;
         Some (join '', '' (filter Boolean_str items)) }
       else if truthy field \<and> typeof field = ''object'' then do {
         hasStart \<leftarrow> js_in ''start'' field;
         hasEnd \<leftarrow> (if hasStart then js_in ''end'' field else Some False);
         if hasStart \<and> hasEnd then do {
           s \<leftarrow> js_get field ''start'';
           start \<leftarrow> getValue_historical H s;
           e \<leftarrow> js_get field ''end'';
           end' \<leftarrow> getValue_historical H e;
           Some (start @ '' - '' @ end') }
         else do {
           hasEmoji \<leftarrow> js_in ''emoji'' field;
           hasForecast \<leftarrow> (if hasEmoji then js_in ''forecast'' field else Some False);
           if hasEmoji \<and> hasForecast then do {
             e \<leftarrow> js_get field ''emoji'';
             emoji \<leftarrow> getValue_historical H e;
             f \<leftarrow> js_get field ''forecast'';
             forecast \<leftarrow> getValue_historical H f;
             Some (emoji @ '' '' @ forecast) }
           else do {
             hasName \<leftarrow> js_in ''name'' field;
             if hasName then do {
               n \<leftarrow> js_get field ''name'';
               name \<leftarrow> getValue_historical H n;
               hasQuantity \<leftarrow> js_in ''quantity'' field;
               quantity \<leftarrow> js_get field ''quantity'';
               more \<leftarrow> (if hasQuantity then js_gt1 H quantity else Some False);
               if more then do {
                 q \<leftarrow> String quantity;
                 Some (name @ '' (x'' @ q @ '')'') }
               else Some name }
             else do {
               hasTitle \<leftarrow> js_in ''title'' field;
               if hasTitle then do { t \<leftarrow> js_get field ''title''; getValue_historical H t }
               else Some [] } } } }
       else Some [] })"
  by pat_completeness auto
termination
  apply (relation "measure (\<lambda>(H, v). size v)")
  apply simp
  subgoal for H field a aa
    using locked_guard [of field] by (auto intro: size_js_get)
  subgoal by (auto dest: size_member_arr)
  subgoal by (auto intro: size_js_get)
  subgoal by (auto intro: size_js_get)
  subgoal by (auto intro: size_js_get)
  subgoal by (auto intro: size_js_get)
  subgoal by (auto intro: size_js_get)
  subgoal by (auto intro: size_js_get)
  done

declare getValue_historical.simps [simp del]

lemma getValue_historical_JNull: "getValue_historical H JNull = Some []"
  by (subst getValue_historical.simps) simp

lemma getValue_historical_JUndef: "getValue_historical H JUndef = Some []"
  by (subst getValue_historical.simps) simp

lemma getValue_historical_JBool: "getValue_historical H (JBool b) = Some (if b then ''true'' else ''false'')"
  by (subst getValue_historical.simps) simp

lemma getValue_historical_JNum: "getValue_historical H (JNum n) = Some (show_int n)"
  by (subst getValue_historical.simps) simp

lemma getValue_historical_JFloat: "getValue_historical H (JFloat t) = Some t"
  by (subst getValue_historical.simps) simp

lemma getValue_historical_JStr: "getValue_historical H (JStr s) = Some s"
  by (subst getValue_historical.simps) simp

lemma getValue_historical_JArr:
  "getValue_historical H (JArr xs) =
     do { items \<leftarrow> mapM (getValue_historical H) xs; Some (join '', '' (filter Boolean_str items)) }"
  by (subst getValue_historical.simps) (simp add: array_map_def)

lemma getValue_historical_locked:
  "''value'' \<in> set (map fst kvs) \<Longrightarrow>
     getValue_historical H (JObj kvs) = getValue_historical H (lookup kvs ''value'')"
  by (subst getValue_historical.simps) simp

lemma getValue_historical_JObj:
  "getValue_historical H (JObj kvs) =
    (let has = (\<lambda>k. k \<in> set (map fst kvs)) in
     if has ''value'' then getValue_historical H (lookup kvs ''value'')
     else if has ''start'' \<and> has ''end'' then do {
       start \<leftarrow> getValue_historical H (lookup kvs ''start'');
       end' \<leftarrow> getValue_historical H (lookup kvs ''end'');
       Some (start @ '' - '' @ end') }
     else if has ''emoji'' \<and> has ''forecast'' then do {
       emoji \<leftarrow> getValue_historical H (lookup kvs ''emoji'');
       forecast \<leftarrow> getValue_historical H (lookup kvs ''forecast'');
       Some (emoji @ '' '' @ forecast) }
     else if has ''name'' then do {
       name \<leftarrow> getValue_historical H (lookup kvs ''name'');
       more \<leftarrow> (if has ''quantity'' then js_gt1 H (lookup kvs ''quantity'') else Some False);
       if more then do {
         q \<leftarrow> String (lookup kvs ''quantity'');
         Some (name @ '' (x'' @ q @ '')'') }
       else Some name }
     else if has ''title'' then getValue_historical H (lookup kvs ''title'')
     else Some [])"
  apply (subst getValue_historical.simps)
  apply (simp add: Let_def del: set_map)
  done

lemmas getValue_historical_eqs = getValue_historical_JNull getValue_historical_JUndef
  getValue_historical_JBool getValue_historical_JNum getValue_historical_JFloat
  getValue_historical_JStr getValue_historical_JArr getValue_historical_JObj

subsection \<open>Where the resolvers return a string\<close>

text \<open>
  A value is \<open>printable\<close> when no object in it has a member of its own named
  \<^verbatim>\<open>toString\<close>. A printable value can be printed and compared with a number, and both
  resolvers return a string on it (the recursion of the model is not bounded in depth).
\<close>

fun printable :: "jv \<Rightarrow> bool" where
  "printable (JArr xs) = (\<forall>x \<in> set xs. printable x)"
| "printable (JObj kvs) =
     (''toString'' \<notin> set (map fst kvs) \<and> (\<forall>p \<in> set kvs. printable (snd p)))"
| "printable v = True"

lemma mapM_total:
  "(\<And>x. x \<in> set xs \<Longrightarrow> \<exists>y. f x = Some y) \<Longrightarrow> \<exists>ys. mapM f xs = Some ys"
proof (induction xs)
  case Nil
  show ?case by simp
next
  case (Cons x xs)
  from Cons.prems obtain y where "f x = Some y" by force
  moreover from Cons obtain ys where "mapM f xs = Some ys" by force
  ultimately show ?case by simp
qed

lemma for_of_total:
  "(\<And>s x. x \<in> set xs \<Longrightarrow> \<exists>s'. body s x = Some s') \<Longrightarrow> \<exists>r. for_of xs s body = Some r"
proof (induction xs arbitrary: s)
  case Nil
  show ?case by simp
next
  case (Cons x xs)
  from Cons.prems obtain s' where "body s x = Some s'" by force
  moreover from Cons obtain r where "for_of xs s' body = Some r" by force
  ultimately show ?case by simp
qed

lemma lookup_cases: "lookup kvs k = JUndef \<or> (k, lookup kvs k) \<in> set kvs"
  by (auto simp: lookup_def split: option.splits dest: map_of_SomeD)

lemma printable_lookup: "printable (JObj kvs) \<Longrightarrow> printable (lookup kvs k)"
  using lookup_cases [of kvs k] by auto

lemma String_printable: "printable v \<Longrightarrow> \<exists>s. String v = Some s"
proof (induction v)
  case (JArr xs)
  have "\<exists>items. mapM (\<lambda>x. if x = JUndef \<or> x = JNull then Some [] else String x) xs = Some items"
  proof (rule mapM_total)
    fix x assume "x \<in> set xs"
    with JArr show "\<exists>y. (if x = JUndef \<or> x = JNull then Some [] else String x) = Some y"
      by simp
  qed
  then show ?case by auto
qed simp_all

lemma js_gt1_printable: "printable v \<Longrightarrow> \<exists>b. js_gt1 H v = Some b"
proof (cases v)
  case (JArr xs)
  assume "printable v"
  then obtain s where "String v = Some s" using String_printable by blast
  with JArr show ?thesis by simp
qed auto

lemma getValue_total_aux: "printable v \<Longrightarrow> \<exists>s. getValue H v = Some s"
proof (induction v)
  case (JArr xs)
  then have "\<exists>ys. mapM (getValue H) xs = Some ys"
    by (intro mapM_total) simp
  then show ?case by (auto simp: getValue_JArr)
next
  case (JObj kvs)
  have member: "\<exists>s. getValue H v = Some s" if "(k, v) \<in> set kvs" for k v
    using JObj that by force
  have look: "\<exists>s. getValue H (lookup kvs k) = Some s" for k
    using lookup_cases [of kvs k] member by (auto simp: getValue_JUndef)
  have loop: "\<exists>r. for_of kvs s0
         (\<lambda>statusParts (key, val).
            if key \<noteq> ''mood'' then do {
              fieldValue \<leftarrow> getValue H val;
              Some (if fieldValue \<noteq> [] \<and> fieldValue \<noteq> ''None''
                    then statusParts @ [fieldValue] else statusParts) }
            else Some statusParts) = Some r" for s0
  proof (rule for_of_total)
    fix s :: "string list" and x :: "string \<times> jv"
    assume "x \<in> set kvs"
    then obtain t where "getValue H (snd x) = Some t"
      using member [of "fst x" "snd x"] by auto
    then show "\<exists>s'. (case x of (key, val) \<Rightarrow>
            if key \<noteq> ''mood'' then do {
              fieldValue \<leftarrow> getValue H val;
              Some (if fieldValue \<noteq> [] \<and> fieldValue \<noteq> ''None''
                    then s @ [fieldValue] else s) }
            else Some s) = Some s'"
      by (cases x) auto
  qed
  have keys: "\<exists>vals. mapM (\<lambda>k. do {
           val \<leftarrow> getValue H (lookup kvs k);
           Some (if val \<noteq> [] then k @ '': '' @ val else []) }) (map fst kvs) = Some vals"
  proof (rule mapM_total)
    fix k
    obtain t where "getValue H (lookup kvs k) = Some t" using look by blast
    then show "\<exists>y. do {
           val \<leftarrow> getValue H (lookup kvs k);
           Some (if val \<noteq> [] then k @ '': '' @ val else []) } = Some y"
      by simp
  qed
  have quantity: "printable (lookup kvs ''quantity'')"
    using JObj.prems by (rule printable_lookup)
  obtain more where more: "js_gt1 H (lookup kvs ''quantity'') = Some more"
    using js_gt1_printable [OF quantity] by blast
  obtain q where q: "String (lookup kvs ''quantity'') = Some q"
    using String_printable [OF quantity] by blast
  obtain mood where mood: "getValue H (lookup kvs ''mood'') = Some mood" using look by blast
  obtain name where name: "getValue H (lookup kvs ''name'') = Some name" using look by blast
  obtain st where st: "getValue H (lookup kvs ''start'') = Some st" using look by blast
  obtain en where en: "getValue H (lookup kvs ''end'') = Some en" using look by blast
  obtain em where em: "getValue H (lookup kvs ''emoji'') = Some em" using look by blast
  obtain fc where fc: "getValue H (lookup kvs ''forecast'') = Some fc" using look by blast
  obtain parts where parts: "for_of kvs (if mood \<noteq> [] then [mood] else [])
         (\<lambda>statusParts (key, val).
            if key \<noteq> ''mood'' then do {
              fieldValue \<leftarrow> getValue H val;
              Some (if fieldValue \<noteq> [] \<and> fieldValue \<noteq> ''None''
                    then statusParts @ [fieldValue] else statusParts) }
            else Some statusParts) = Some parts"
    using loop by blast
  obtain vals where vals: "mapM (\<lambda>k. do {
           val \<leftarrow> getValue H (lookup kvs k);
           Some (if val \<noteq> [] then k @ '': '' @ val else []) }) (map fst kvs) = Some vals"
    using keys by blast
  show ?case
    unfolding getValue_JObj Let_def
    using look [of "''value''"] look [of "''title''"]
    by (simp add: mood name st en em fc parts vals more q del: set_map)
qed (simp_all add: getValue_eqs del: getValue_JObj getValue_JArr)

lemma getValue_historical_total_aux: "printable v \<Longrightarrow> \<exists>s. getValue_historical H v = Some s"
proof (induction v)
  case (JArr xs)
  then have "\<exists>ys. mapM (getValue_historical H) xs = Some ys"
    by (intro mapM_total) simp
  then show ?case by (auto simp: getValue_historical_JArr)
next
  case (JObj kvs)
  have member: "\<exists>s. getValue_historical H v = Some s" if "(k, v) \<in> set kvs" for k v
    using JObj that by force
  have look: "\<exists>s. getValue_historical H (lookup kvs k) = Some s" for k
    using lookup_cases [of kvs k] member by (auto simp: getValue_historical_JUndef)
  have quantity: "printable (lookup kvs ''quantity'')"
    using JObj.prems by (rule printable_lookup)
  obtain more where more: "js_gt1 H (lookup kvs ''quantity'') = Some more"
    using js_gt1_printable [OF quantity] by blast
  obtain q where q: "String (lookup kvs ''quantity'') = Some q"
    using String_printable [OF quantity] by blast
  obtain name where name: "getValue_historical H (lookup kvs ''name'') = Some name"
    using look by blast
  obtain st where st: "getValue_historical H (lookup kvs ''start'') = Some st"
    using look by blast
  obtain en where en: "getValue_historical H (lookup kvs ''end'') = Some en"
    using look by blast
  obtain em where em: "getValue_historical H (lookup kvs ''emoji'') = Some em"
    using look by blast
  obtain fc where fc: "getValue_historical H (lookup kvs ''forecast'') = Some fc"
    using look by blast
  show ?case
    unfolding getValue_historical_JObj Let_def
    using look [of "''value''"] look [of "''title''"]
    by (simp add: name st en em fc more q del: set_map)
qed (simp_all add: getValue_historical_eqs del: getValue_historical_JObj getValue_historical_JArr)

definition locked_wrapper :: "jv \<Rightarrow> bool \<Rightarrow> jv" where
  "locked_wrapper v b = JObj [(''value'', v), (''locked'', JBool b)]"

lemma getValue_locked_wrapper: "getValue H (locked_wrapper v b) = getValue H v"
  unfolding locked_wrapper_def by (subst getValue_locked) (simp_all add: lookup_def)

lemma getValue_historical_locked_wrapper:
  "getValue_historical H (locked_wrapper v b) = getValue_historical H v"
  unfolding locked_wrapper_def by (subst getValue_historical_locked) (simp_all add: lookup_def)

section \<open>The context formatter\<close>

subsection \<open>String operations\<close>

definition NL :: string where
  "NL = [CHR 0x0A]"

definition lower_letters :: string where
  "lower_letters = ''abcdefghijklmnopqrstuvwxyz''"

definition upper_letters :: string where
  "upper_letters = ''ABCDEFGHIJKLMNOPQRSTUVWXYZ''"

definition upper_char :: "char \<Rightarrow> char" where
  "upper_char c = (case map_of (zip lower_letters upper_letters) c of Some u \<Rightarrow> u | None \<Rightarrow> c)"

definition lower_char :: "char \<Rightarrow> char" where
  "lower_char c = (case map_of (zip upper_letters lower_letters) c of Some l \<Rightarrow> l | None \<Rightarrow> c)"

definition toLowerCase :: "string \<Rightarrow> string" where
  "toLowerCase s = map lower_char s"

text \<open>\<^verbatim>\<open>s.charAt(0).toUpperCase() + s.slice(1)\<close>\<close>

definition capitalize :: "string \<Rightarrow> string" where
  "capitalize s = (case s of [] \<Rightarrow> [] | c # cs \<Rightarrow> upper_char c # cs)"

text \<open>\<^verbatim>\<open>s.replace(/_/g, ' ')\<close>\<close>

definition underscores_to_spaces :: "string \<Rightarrow> string" where
  "underscores_to_spaces s = map (\<lambda>c. if c = CHR ''_'' then CHR '' '' else c) s"

text \<open>\<^verbatim>\<open>s.replace(/([A-Z])/g, ' $1')\<close>\<close>

definition space_before_capitals :: "string \<Rightarrow> string" where
  "space_before_capitals s =
     concat (map (\<lambda>c. if c \<in> set upper_letters then [CHR '' '', c] else [c]) s)"

text \<open>\<^verbatim>\<open>s.replace(/^./, str => str.toUpperCase())\<close>: the dot matches no line break.\<close>

definition upper_first :: "string \<Rightarrow> string" where
  "upper_first s =
     (case s of [] \<Rightarrow> []
      | c # cs \<Rightarrow> if c = CHR 0x0A \<or> c = CHR 0x0D then s else upper_char c # cs)"

definition is_space :: "char \<Rightarrow> bool" where
  "is_space c = (c \<in> set [CHR 0x09, CHR 0x0A, CHR 0x0B, CHR 0x0C, CHR 0x0D, CHR 0x20])"

definition trim :: "string \<Rightarrow> string" where
  "trim s = rev (dropWhile is_space (rev (dropWhile is_space s)))"

text \<open>The display name of a custom scene field, and of a character detail.\<close>

definition displayName_of_key :: "string \<Rightarrow> string" where
  "displayName_of_key key = trim (upper_first (space_before_capitals key))"

definition fieldName_of_key :: "string \<Rightarrow> string" where
  "fieldName_of_key key =
     trim (upper_first (space_before_capitals (underscores_to_spaces key)))"

subsection \<open>More primitive operations\<close>

text \<open>
  \<^verbatim>\<open>a === b\<close>. Two arrays or two objects are equal only when they are one object; the
  operands this code compares come from different trees (the configuration and the
  snapshot) or one of them is a literal, so two arrays or objects are never equal here.
\<close>

fun strict_eq :: "jv \<Rightarrow> jv \<Rightarrow> bool" where
  "strict_eq JUndef JUndef = True"
| "strict_eq JNull JNull = True"
| "strict_eq (JBool a) (JBool b) = (a = b)"
| "strict_eq (JNum a) (JNum b) = (a = b)"
| "strict_eq (JFloat a) (JFloat b) = (a = b \<and> a \<noteq> ''NaN'')"
| "strict_eq (JStr a) (JStr b) = (a = b)"
| "strict_eq a b = False"

text \<open>\<^verbatim>\<open>xs.find(p)\<close>: a TypeError when \<open>xs\<close> is not an array, \<^verbatim>\<open>undefined\<close> when no
  element satisfies \<open>p\<close>.\<close>

fun findM :: "(jv \<Rightarrow> bool option) \<Rightarrow> jv list \<Rightarrow> jv option" where
  "findM p [] = Some JUndef"
| "findM p (x # xs) = do { b \<leftarrow> p x; if b then Some x else findM p xs }"

definition array_find :: "(jv \<Rightarrow> bool option) \<Rightarrow> jv \<Rightarrow> jv option" where
  "array_find p v = (case v of JArr xs \<Rightarrow> findM p xs | _ \<Rightarrow> None)"

definition array_length :: "jv \<Rightarrow> nat" where
  "array_length v = (case v of JArr xs \<Rightarrow> length xs | _ \<Rightarrow> 0)"

text \<open>A string method called on a value: a TypeError when the value is not a string.\<close>

definition call_capitalize :: "jv \<Rightarrow> jv option" where
  "call_capitalize v = (case v of JStr s \<Rightarrow> Some (JStr (capitalize s)) | _ \<Rightarrow> None)"

definition call_toLowerCase :: "jv \<Rightarrow> jv option" where
  "call_toLowerCase v = (case v of JStr s \<Rightarrow> Some (JStr (toLowerCase s)) | _ \<Rightarrow> None)"

text \<open>\<^verbatim>\<open>xs.map(i => getValue(i)).filter(i => i)\<close>\<close>

definition getValues :: "host \<Rightarrow> jv \<Rightarrow> string list option" where
  "getValues H v = do { items \<leftarrow> array_map (getValue H) v; Some (filter Boolean_str items) }"

subsection \<open>Player stats\<close>

text \<open>
  The text that \<^verbatim>\<open>formatTrackerDataForContext\<close> appends to \<^verbatim>\<open>formatted\<close> is only ever
  appended, so each part of the function is modelled by the text it appends, and the
  parts are concatenated in the order of the source.
\<close>

definition getMaxValue :: "jv \<Rightarrow> jv \<Rightarrow> jv option" where
  "getMaxValue customStats statId = do {
     statConfig \<leftarrow> array_find (\<lambda>s. do { i \<leftarrow> js_get s ''id''; Some (strict_eq i statId) }) customStats;
     Some (js_or (js_get_opt statConfig ''maxValue'') (JNum 100)) }"

definition formatStatValue :: "jv \<Rightarrow> jv \<Rightarrow> jv \<Rightarrow> jv \<Rightarrow> jv option" where
  "formatStatValue displayMode customStats val statId =
     (if strict_eq displayMode (JStr ''number'') then do {
        maxValue \<leftarrow> getMaxValue customStats statId;
        shown \<leftarrow> String val;
        shownMax \<leftarrow> String maxValue;
        Some (JStr (shown @ ''/'' @ shownMax)) }
      else Some val)"

definition stats_array_text :: "jv \<Rightarrow> jv \<Rightarrow> jv list \<Rightarrow> string option" where
  "stats_array_text displayMode customStats stats =
     for_of stats [] (\<lambda>formatted stat. do {
       val \<leftarrow> (if truthy stat then js_get stat ''value'' else Some JUndef);
       if truthy stat \<and> val \<noteq> JUndef then do {
         name \<leftarrow> js_get stat ''name'';
         ident \<leftarrow> js_get stat ''id'';
         statName \<leftarrow> (if truthy name then Some name
                      else if truthy ident then call_capitalize ident
                      else Some (JStr ''Unknown''));
         statId \<leftarrow> (if truthy ident then Some ident else call_toLowerCase statName);
         label \<leftarrow> String statName;
         shown \<leftarrow> formatStatValue displayMode customStats val statId;
         printed \<leftarrow> String shown;
         Some (formatted @ label @ '': '' @ printed @ NL) }
       else Some formatted })"

definition statFieldOrder :: "string list" where
  "statFieldOrder = [''health'', ''mana'', ''stamina'', ''satiety'', ''hygiene'', ''energy'', ''arousal'']"

definition specialFields :: "string list" where
  "specialFields = [''status'', ''mood'', ''skills'', ''inventory'', ''quests'']"

definition stats_flat_text :: "host \<Rightarrow> jv \<Rightarrow> jv \<Rightarrow> jv \<Rightarrow> string option" where
  "stats_flat_text H displayMode customStats data = do {
     known \<leftarrow> for_of statFieldOrder [] (\<lambda>formatted statName. do {
       field \<leftarrow> js_get data statName;
       if field \<noteq> JUndef then do {
         val \<leftarrow> getValue H field;
         if val \<noteq> [] then do {
           shown \<leftarrow> formatStatValue displayMode customStats (JStr val) (JStr statName);
           printed \<leftarrow> String shown;
           Some (formatted @ capitalize statName @ '': '' @ printed @ NL) }
         else Some formatted }
       else Some formatted });
     entries \<leftarrow> Object_entries data;
     for_of entries known (\<lambda>formatted (key, val).
       if key \<notin> set statFieldOrder \<and> key \<notin> set specialFields \<and> typeof val = ''number'' then do {
         v \<leftarrow> getValue H val;
         shown \<leftarrow> formatStatValue displayMode customStats (JStr v) (JStr key);
         printed \<leftarrow> String shown;
         Some (formatted @ capitalize key @ '': '' @ printed @ NL) }
       else Some formatted) }"

text \<open>\<^verbatim>\<open>if (data.k) formatted += `Label: ${getValue(data.k)}\n`\<close>\<close>

definition labelled_line :: "host \<Rightarrow> string \<Rightarrow> jv \<Rightarrow> string option" where
  "labelled_line H label field =
     (if truthy field then do { v \<leftarrow> getValue H field; Some (label @ '': '' @ v @ NL) }
      else Some [])"

definition skills_text :: "host \<Rightarrow> jv \<Rightarrow> string option" where
  "skills_text H skills =
     (if truthy skills then
        if isArray skills then do {
          items \<leftarrow> getValues H skills;
          let skillsList = join '', '' items;
          Some (if skillsList \<noteq> [] then ''Skills: '' @ skillsList @ NL else []) }
        else if typeof skills = ''object'' then do {
          entries \<leftarrow> Object_entries skills;
          items \<leftarrow> mapM (\<lambda>(name, val). do {
            skillName \<leftarrow> getValue H (JStr name);
            skillVal \<leftarrow> getValue H val;
            Some (if skillVal \<noteq> [] then skillName @ '': '' @ skillVal else skillName) }) entries;
          let skillsList = join '', '' (filter Boolean_str items);
          Some (if skillsList \<noteq> [] then ''Skills: '' @ skillsList @ NL else []) }
        else Some []
      else Some [])"

text \<open>
  The pattern of the inventory sections and of the quest lists: a non-empty array, its
  resolved non-empty items joined behind a label.
\<close>

definition list_line :: "host \<Rightarrow> string \<Rightarrow> jv \<Rightarrow> string option" where
  "list_line H label items =
     (if truthy items \<and> isArray items \<and> array_length items > 0 then do {
        shown \<leftarrow> getValues H items;
        Some (if length shown > 0 then label @ '': '' @ join '', '' shown @ NL else []) }
      else Some [])"

definition inventory_text :: "host \<Rightarrow> jv \<Rightarrow> string option" where
  "inventory_text H inventory =
     (if truthy inventory then do {
        onPerson \<leftarrow> js_get inventory ''onPerson'';
        a \<leftarrow> list_line H ''On Person'' onPerson;
        clothing \<leftarrow> js_get inventory ''clothing'';
        b \<leftarrow> list_line H ''Clothing'' clothing;
        stored \<leftarrow> js_get inventory ''stored'';
        c \<leftarrow> (if truthy stored \<and> typeof stored = ''object'' \<and> \<not> isArray stored then do {
               entries \<leftarrow> Object_entries stored;
               for_of entries [] (\<lambda>formatted (location, items). do {
                 place \<leftarrow> getValue H (JStr location);
                 line \<leftarrow> list_line H place items;
                 Some (formatted @ line) }) }
             else Some []);
        assets \<leftarrow> js_get inventory ''assets'';
        d \<leftarrow> list_line H ''Assets'' assets;
        Some (a @ b @ c @ d) }
      else Some [])"

definition quests_text :: "host \<Rightarrow> jv \<Rightarrow> string option" where
  "quests_text H quests =
     (if truthy quests then do {
        main \<leftarrow> js_get quests ''main'';
        a \<leftarrow> (if truthy main then
               if typeof main = ''string'' then do {
                 mainQuest \<leftarrow> getValue H main;
                 Some (if mainQuest \<noteq> [] then ''Main Quest: '' @ mainQuest @ NL else []) }
               else if isArray main \<and> array_length main > 0 then list_line H ''Main Quests'' main
               else if typeof main = ''object'' then do {
                 mainQuest \<leftarrow> getValue H main;
                 Some (if mainQuest \<noteq> [] then ''Main Quest: '' @ mainQuest @ NL else []) }
               else Some []
             else Some []);
        optional \<leftarrow> js_get quests ''optional'';
        b \<leftarrow> list_line H ''Optional Quests'' optional;
        Some (a @ b) }
      else Some [])"

definition userStats_text :: "host \<Rightarrow> jv \<Rightarrow> jv \<Rightarrow> string \<Rightarrow> string option" where
  "userStats_text H trackerConfig data userName = do {
     let userStatsConfig = js_get_opt trackerConfig ''userStats'';
     let displayMode = js_or (js_get_opt userStatsConfig ''statsDisplayMode'') (JStr ''percentage'');
     let customStats = js_or (js_get_opt userStatsConfig ''customStats'') (JArr []);
     stats \<leftarrow> js_get data ''stats'';
     statLines \<leftarrow> (if truthy stats \<and> isArray stats
                   then (case stats of JArr xs \<Rightarrow> stats_array_text displayMode customStats xs
                         | _ \<Rightarrow> None)
                   else stats_flat_text H displayMode customStats data);
     status \<leftarrow> js_get data ''status'';
     statusLine \<leftarrow> labelled_line H ''Status'' status;
     mood \<leftarrow> js_get data ''mood'';
     moodLine \<leftarrow> labelled_line H ''Mood'' mood;
     skills \<leftarrow> js_get data ''skills'';
     skillsLine \<leftarrow> skills_text H skills;
     inventory \<leftarrow> js_get data ''inventory'';
     inventoryLines \<leftarrow> inventory_text H inventory;
     quests \<leftarrow> js_get data ''quests'';
     questLines \<leftarrow> quests_text H quests;
     Some (userName @ [CHR 0x27] @ ''s Stats:'' @ NL @ statLines @ statusLine @ moodLine
           @ skillsLine @ inventoryLines @ questLines) }"

subsection \<open>Scene information\<close>

definition knownFields :: "string list" where
  "knownFields = [''location'', ''date'', ''time'', ''weather'', ''temperature'']"

definition infoBox_text :: "host \<Rightarrow> jv \<Rightarrow> string option" where
  "infoBox_text H data = do {
     location \<leftarrow> js_get data ''location'';
     a \<leftarrow> labelled_line H ''Location'' location;
     date \<leftarrow> js_get data ''date'';
     b \<leftarrow> labelled_line H ''Date'' date;
     time \<leftarrow> js_get data ''time'';
     c \<leftarrow> labelled_line H ''Time'' time;
     weather \<leftarrow> js_get data ''weather'';
     d \<leftarrow> labelled_line H ''Weather'' weather;
     temperature \<leftarrow> js_get data ''temperature'';
     e \<leftarrow> labelled_line H ''Temperature'' temperature;
     entries \<leftarrow> Object_entries data;
     custom \<leftarrow> for_of entries [] (\<lambda>formatted (key, field).
       if key \<notin> set knownFields then do {
         val \<leftarrow> getValue H field;
         Some (if val \<noteq> [] then formatted @ displayName_of_key key @ '': '' @ val @ NL
               else formatted) }
       else Some formatted);
     Some (''Info Box:'' @ NL @ a @ b @ c @ d @ e @ custom) }"

subsection \<open>Present characters\<close>

text \<open>
  \<^verbatim>\<open>relationship\<close> and \<^verbatim>\<open>thoughts\<close> are read the same way: through the named member
  when the value is a plain object that has it, else as they are.
\<close>

definition wrapped_line :: "host \<Rightarrow> string \<Rightarrow> string \<Rightarrow> jv \<Rightarrow> string option" where
  "wrapped_line H label member field =
     (if truthy field then do {
        wrapped \<leftarrow> (if typeof field = ''object'' \<and> \<not> isArray field
                    then js_in member field else Some False);
        inner \<leftarrow> (if wrapped then js_get field member else Some field);
        v \<leftarrow> getValue H inner;
        Some (if v \<noteq> [] then ''  '' @ label @ '': '' @ v @ NL else []) }
      else Some [])"

definition character_text :: "host \<Rightarrow> jv \<Rightarrow> string option" where
  "character_text H char = do {
     name \<leftarrow> js_get char ''name'';
     n \<leftarrow> getValue H name;
     let charName = (if n \<noteq> [] then n else ''Unknown'');
     details \<leftarrow> js_get char ''details'';
     detailLines \<leftarrow> (if truthy details \<and> typeof details = ''object'' then do {
         entries \<leftarrow> Object_entries details;
         for_of entries [] (\<lambda>formatted (key, field). do {
           fieldValue \<leftarrow> getValue H field;
           Some (if fieldValue \<noteq> []
                 then formatted @ ''  '' @ fieldName_of_key key @ '': '' @ fieldValue @ NL
                 else formatted) }) }
       else Some []);
     relationship \<leftarrow> js_get char ''relationship'';
     relLine \<leftarrow> wrapped_line H ''Relationship'' ''status'' relationship;
     thoughts \<leftarrow> js_get char ''thoughts'';
     thoughtLine \<leftarrow> wrapped_line H ''Thoughts'' ''content'' thoughts;
     stats \<leftarrow> js_get char ''stats'';
     statsLine \<leftarrow> (if truthy stats \<and> typeof stats = ''object'' \<and> \<not> isArray stats then do {
         entries \<leftarrow> Object_entries stats;
         items \<leftarrow> mapM (\<lambda>(name, val). do {
           statValue \<leftarrow> getValue H val;
           Some (if statValue \<noteq> [] then name @ '': '' @ statValue else []) }) entries;
         let statsList = join '', '' (filter Boolean_str items);
         Some (if statsList \<noteq> [] then ''  Stats: '' @ statsList @ NL else []) }
       else Some []);
     Some (''- '' @ charName @ '':'' @ NL @ detailLines @ relLine @ thoughtLine @ statsLine) }"

definition characters_text :: "host \<Rightarrow> jv \<Rightarrow> string option" where
  "characters_text H data =
     (case data of
        JArr chars \<Rightarrow> do {
          blocks \<leftarrow> mapM (character_text H) chars;
          Some (''Present Characters:'' @ NL @ concat blocks) }
      | _ \<Rightarrow> Some [])"

subsection \<open>formatTrackerDataForContext\<close>

text \<open>
  \<open>trackerConfig\<close> is \<^verbatim>\<open>extensionSettings.trackerConfig\<close>, which the function reads
  from the module's state. The body runs inside \<^verbatim>\<open>try\<close>; the \<^verbatim>\<open>catch\<close> logs a warning
  and returns the empty string.
\<close>

definition formatTrackerDataForContext_body ::
  "host \<Rightarrow> jv \<Rightarrow> jv \<Rightarrow> string \<Rightarrow> string \<Rightarrow> string option" where
  "formatTrackerDataForContext_body H trackerConfig jsonData trackerType userName = do {
     data \<leftarrow> (if typeof jsonData = ''string''
              then do { source \<leftarrow> String jsonData; JSON_parse H source }
              else Some jsonData);
     if trackerType = ''userStats'' then userStats_text H trackerConfig data userName
     else if trackerType = ''infoBox'' then infoBox_text H data
     else if trackerType = ''characters'' then characters_text H data
     else Some [] }"

definition formatTrackerDataForContext ::
  "host \<Rightarrow> jv \<Rightarrow> jv \<Rightarrow> string \<Rightarrow> string \<Rightarrow> string" where
  "formatTrackerDataForContext H trackerConfig jsonData trackerType userName =
     (if \<not> truthy jsonData then []
      else case formatTrackerDataForContext_body H trackerConfig jsonData trackerType userName of
             Some formatted \<Rightarrow> formatted
           | None \<Rightarrow> [])"

section \<open>The historical formatter\<close>

text \<open>
  \<^verbatim>\<open>formatHistoricalTrackerData(trackerData, trackerConfig, userName, useAllEnabled)\<close>.
  The two filters are closures over \<^verbatim>\<open>useAllEnabled\<close>; \<^verbatim>\<open>config?.enabled\<close> is
  \<^verbatim>\<open>undefined\<close> when there is no configuration entry.
\<close>

definition shouldInclude :: "bool \<Rightarrow> jv \<Rightarrow> bool" where
  "shouldInclude useAllEnabled config =
     (if useAllEnabled then \<not> strict_eq (js_get_opt config ''enabled'') (JBool False)
      else strict_eq (js_get_opt config ''persistInHistory'') (JBool True))"

definition shouldIncludeStat :: "bool \<Rightarrow> jv \<Rightarrow> bool" where
  "shouldIncludeStat useAllEnabled configStat =
     (if useAllEnabled then \<not> strict_eq (js_get_opt configStat ''enabled'') (JBool False)
      else strict_eq (js_get_opt configStat ''persistInHistory'') (JBool True))"

text \<open>The values a \<^verbatim>\<open>for ... of\<close> loop visits: a TypeError on a value that is not
  iterable.\<close>

definition iterate :: "jv \<Rightarrow> jv list option" where
  "iterate v = (case v of JArr xs \<Rightarrow> Some xs | JStr s \<Rightarrow> Some (map (\<lambda>c. JStr [c]) s) | _ \<Rightarrow> None)"

text \<open>\<^verbatim>\<open>s.slice(0, -2)\<close>\<close>

definition slice_0_minus2 :: "string \<Rightarrow> string" where
  "slice_0_minus2 s = take (length s - 2) s"

definition getValues_historical :: "host \<Rightarrow> jv \<Rightarrow> string list option" where
  "getValues_historical H v =
     do { items \<leftarrow> array_map (getValue_historical H) v; Some (filter Boolean_str items) }"

definition historical_list_part :: "host \<Rightarrow> string \<Rightarrow> jv \<Rightarrow> string option" where
  "historical_list_part H label items =
     (if truthy items \<and> isArray items \<and> array_length items > 0 then do {
        shown \<leftarrow> getValues_historical H items;
        Some (if length shown > 0 then label @ '': '' @ join '', '' shown @ '', '' else []) }
      else Some [])"

definition historical_stats_part :: "bool \<Rightarrow> jv \<Rightarrow> jv \<Rightarrow> string option" where
  "historical_stats_part useAllEnabled userStatsConfig userStatsData = do {
     stats \<leftarrow> js_get userStatsData ''stats'';
     customStats \<leftarrow> (if truthy stats \<and> isArray stats then js_get userStatsConfig ''customStats''
                     else Some JUndef);
     if truthy stats \<and> isArray stats \<and> truthy customStats then do {
       elems \<leftarrow> iterate stats;
       for_of elems [] (\<lambda>statsFormatted stat. do {
         configStat \<leftarrow> array_find (\<lambda>s. do {
             i \<leftarrow> js_get s ''id''; j \<leftarrow> js_get stat ''id''; Some (strict_eq i j) }) customStats;
         val \<leftarrow> (if shouldIncludeStat useAllEnabled configStat then js_get stat ''value''
                 else Some JUndef);
         if shouldIncludeStat useAllEnabled configStat \<and> val \<noteq> JUndef then do {
           name \<leftarrow> js_get stat ''name'';
           statName \<leftarrow> (if truthy name then Some name else do {
               configName \<leftarrow> js_get configStat ''name'';
               if truthy configName then Some configName else js_get stat ''id'' });
           label \<leftarrow> String statName;
           shown \<leftarrow> String val;
           Some (statsFormatted @ label @ '': '' @ shown @ '', '') }
         else Some statsFormatted }) }
     else Some [] }"

definition historical_status_part :: "host \<Rightarrow> bool \<Rightarrow> jv \<Rightarrow> jv \<Rightarrow> string option" where
  "historical_status_part H useAllEnabled userStatsConfig userStatsData = do {
     statusSection \<leftarrow> js_get userStatsConfig ''statusSection'';
     status \<leftarrow> (if shouldInclude useAllEnabled statusSection then js_get userStatsData ''status''
                else Some JUndef);
     if shouldInclude useAllEnabled statusSection \<and> truthy status then do {
       statusMood \<leftarrow> js_get status ''mood'';
       mood \<leftarrow> getValue_historical H (js_or statusMood status);
       showMoodEmoji \<leftarrow> (if mood \<noteq> [] then js_get statusSection ''showMoodEmoji''
                        else Some JUndef);
       let moodPart = (if mood \<noteq> [] \<and> truthy showMoodEmoji then ''Mood: '' @ mood @ '', '' else []);
       configured \<leftarrow> js_get statusSection ''customFields'';
       customFields \<leftarrow> iterate (js_or configured (JArr []));
       for_of customFields moodPart (\<lambda>statsFormatted fieldName. do {
         fieldKey \<leftarrow> call_toLowerCase fieldName;
         key \<leftarrow> String fieldKey;
         field \<leftarrow> js_get status key;
         fieldValue \<leftarrow> getValue_historical H field;
         if fieldValue \<noteq> [] \<and> fieldValue \<noteq> ''None'' then do {
           label \<leftarrow> String fieldName;
           Some (statsFormatted @ label @ '': '' @ fieldValue @ '', '') }
         else Some statsFormatted }) }
     else Some [] }"

definition historical_skills_part :: "host \<Rightarrow> bool \<Rightarrow> jv \<Rightarrow> jv \<Rightarrow> string option" where
  "historical_skills_part H useAllEnabled userStatsConfig userStatsData = do {
     skillsSection \<leftarrow> js_get userStatsConfig ''skillsSection'';
     skills \<leftarrow> (if shouldInclude useAllEnabled skillsSection then js_get userStatsData ''skills''
                else Some JUndef);
     if shouldInclude useAllEnabled skillsSection \<and> truthy skills then do {
       skillsList \<leftarrow> (if isArray skills then do {
           items \<leftarrow> getValues_historical H skills; Some (join '', '' items) }
         else getValue_historical H skills);
       Some (if skillsList \<noteq> [] then ''Skills: '' @ skillsList @ '', '' else []) }
     else Some [] }"

definition historical_inventory_part :: "host \<Rightarrow> bool \<Rightarrow> jv \<Rightarrow> jv \<Rightarrow> string option" where
  "historical_inventory_part H useAllEnabled userStatsConfig userStatsData = do {
     shouldIncludeInventory \<leftarrow> (if useAllEnabled then Some True else do {
         flag \<leftarrow> js_get userStatsConfig ''inventoryPersistInHistory''; Some (truthy flag) });
     inventory \<leftarrow> (if shouldIncludeInventory then js_get userStatsData ''inventory''
                   else Some JUndef);
     if shouldIncludeInventory \<and> truthy inventory then do {
       onPerson \<leftarrow> js_get inventory ''onPerson'';
       a \<leftarrow> historical_list_part H ''On Person'' onPerson;
       clothing \<leftarrow> js_get inventory ''clothing'';
       b \<leftarrow> historical_list_part H ''Clothing'' clothing;
       Some (a @ b) }
     else Some [] }"

definition historical_quests_part :: "host \<Rightarrow> bool \<Rightarrow> jv \<Rightarrow> jv \<Rightarrow> string option" where
  "historical_quests_part H useAllEnabled userStatsConfig userStatsData = do {
     shouldIncludeQuests \<leftarrow> (if useAllEnabled then Some True else do {
         flag \<leftarrow> js_get userStatsConfig ''questsPersistInHistory''; Some (truthy flag) });
     quests \<leftarrow> (if shouldIncludeQuests then js_get userStatsData ''quests'' else Some JUndef);
     if shouldIncludeQuests \<and> truthy quests then do {
       main \<leftarrow> js_get quests ''main'';
       if truthy main then do {
         mainQuest \<leftarrow> getValue_historical H main;
         Some (if mainQuest \<noteq> [] \<and> mainQuest \<noteq> ''None'' then ''Quest: '' @ mainQuest @ '', ''
               else []) }
       else Some [] }
     else Some [] }"

text \<open>A category's payload: parsed when it is a string, else taken as it is.\<close>

definition parse_payload :: "host \<Rightarrow> jv \<Rightarrow> jv option" where
  "parse_payload H payload =
     (if typeof payload = ''string'' then do { source \<leftarrow> String payload; JSON_parse H source }
      else Some payload)"

definition historical_userStats :: "host \<Rightarrow> jv \<Rightarrow> jv \<Rightarrow> string \<Rightarrow> bool \<Rightarrow> string option" where
  "historical_userStats H trackerData trackerConfig userName useAllEnabled = do {
     payload \<leftarrow> js_get trackerData ''userStats'';
     if truthy payload then do {
       userStatsConfig \<leftarrow> js_get trackerConfig ''userStats'';
       userStatsData \<leftarrow> parse_payload H payload;
       a \<leftarrow> historical_stats_part useAllEnabled userStatsConfig userStatsData;
       b \<leftarrow> historical_status_part H useAllEnabled userStatsConfig userStatsData;
       c \<leftarrow> historical_skills_part H useAllEnabled userStatsConfig userStatsData;
       d \<leftarrow> historical_inventory_part H useAllEnabled userStatsConfig userStatsData;
       e \<leftarrow> historical_quests_part H useAllEnabled userStatsConfig userStatsData;
       let statsFormatted = a @ b @ c @ d @ e;
       Some (if statsFormatted \<noteq> [] then userName @ '': '' @ slice_0_minus2 statsFormatted @ NL
             else []) }
     else Some [] }"

text \<open>One widget of the scene information: the filter on its configuration entry first,
  then the field of the snapshot.\<close>

definition historical_widget ::
  "host \<Rightarrow> bool \<Rightarrow> jv \<Rightarrow> jv \<Rightarrow> string \<Rightarrow> string \<Rightarrow> string option" where
  "historical_widget H useAllEnabled widgets infoBoxData key label = do {
     config \<leftarrow> js_get widgets key;
     field \<leftarrow> (if shouldInclude useAllEnabled config then js_get infoBoxData key else Some JUndef);
     if shouldInclude useAllEnabled config \<and> truthy field then do {
       v \<leftarrow> getValue_historical H field;
       Some (if v \<noteq> [] then label @ '': '' @ v @ '', '' else []) }
     else Some [] }"

definition historical_infoBox :: "host \<Rightarrow> jv \<Rightarrow> jv \<Rightarrow> bool \<Rightarrow> string option" where
  "historical_infoBox H trackerData trackerConfig useAllEnabled = do {
     payload \<leftarrow> js_get trackerData ''infoBox'';
     if truthy payload then do {
       infoBoxConfig \<leftarrow> js_get trackerConfig ''infoBox'';
       infoBoxData \<leftarrow> parse_payload H payload;
       widgets \<leftarrow> js_get infoBoxConfig ''widgets'';
       a \<leftarrow> historical_widget H useAllEnabled widgets infoBoxData ''date'' ''Date'';
       b \<leftarrow> historical_widget H useAllEnabled widgets infoBoxData ''time'' ''Time'';
       c \<leftarrow> historical_widget H useAllEnabled widgets infoBoxData ''weather'' ''Weather'';
       d \<leftarrow> historical_widget H useAllEnabled widgets infoBoxData ''temperature'' ''Temp'';
       e \<leftarrow> historical_widget H useAllEnabled widgets infoBoxData ''location'' ''Location'';
       f \<leftarrow> historical_widget H useAllEnabled widgets infoBoxData ''recentEvents'' ''Events'';
       let infoFormatted = a @ b @ c @ d @ e @ f;
       Some (if infoFormatted \<noteq> [] then slice_0_minus2 infoFormatted @ NL else []) }
     else Some [] }"

definition historical_character :: "host \<Rightarrow> bool \<Rightarrow> jv \<Rightarrow> jv \<Rightarrow> string option" where
  "historical_character H useAllEnabled charsConfig char = do {
     name \<leftarrow> (if truthy char then js_get char ''name'' else Some JUndef);
     if \<not> truthy char \<or> \<not> truthy name then Some []
     else do {
       details \<leftarrow> js_get char ''details'';
       a \<leftarrow> (if truthy details \<and> typeof details = ''object'' then do {
           configured \<leftarrow> js_get charsConfig ''customFields'';
           customFields \<leftarrow> iterate configured;
           for_of customFields [] (\<lambda>charFormatted field. do {
             detail \<leftarrow> (if shouldIncludeStat useAllEnabled field then do {
                 ident \<leftarrow> js_get field ''id''; key \<leftarrow> String ident; js_get details key }
               else Some JUndef);
             if shouldIncludeStat useAllEnabled field \<and> truthy detail then do {
               v \<leftarrow> getValue_historical H detail;
               if v \<noteq> [] then do {
                 name \<leftarrow> js_get field ''name'';
                 label \<leftarrow> String name;
                 Some (charFormatted @ label @ '': '' @ v @ '', '') }
               else Some charFormatted }
             else Some charFormatted }) }
         else Some []);
       thoughtsConfig \<leftarrow> js_get charsConfig ''thoughts'';
       thoughts \<leftarrow> (if shouldInclude useAllEnabled thoughtsConfig then js_get char ''thoughts''
                    else Some JUndef);
       b \<leftarrow> (if shouldInclude useAllEnabled thoughtsConfig \<and> truthy thoughts then do {
           content \<leftarrow> (if typeof thoughts = ''object'' then js_get thoughts ''content''
                       else Some JUndef);
           t \<leftarrow> (if typeof thoughts = ''object'' \<and> truthy content
                 then getValue_historical H content else getValue_historical H thoughts);
           Some (if t \<noteq> [] then ''Thinking: '' @ t @ '', '' else []) }
         else Some []);
       let charFormatted = a @ b;
       if charFormatted \<noteq> [] then do {
         n \<leftarrow> getValue_historical H name;
         Some (n @ '': '' @ slice_0_minus2 charFormatted @ NL) }
       else Some [] } }"

definition historical_characters :: "host \<Rightarrow> jv \<Rightarrow> jv \<Rightarrow> bool \<Rightarrow> string option" where
  "historical_characters H trackerData trackerConfig useAllEnabled = do {
     payload \<leftarrow> js_get trackerData ''characterThoughts'';
     if truthy payload then do {
       charsConfig \<leftarrow> js_get trackerConfig ''presentCharacters'';
       charsData \<leftarrow> parse_payload H payload;
       wrapped \<leftarrow> (if isArray charsData then Some JUndef else js_get charsData ''characters'');
       characters \<leftarrow> iterate (if isArray charsData then charsData else js_or wrapped (JArr []));
       blocks \<leftarrow> mapM (historical_character H useAllEnabled charsConfig) characters;
       Some (concat blocks) }
     else Some [] }"

text \<open>
  One \<^verbatim>\<open>try\<close> block holds the three categories, in this order; its \<^verbatim>\<open>catch\<close> logs a
  warning and returns the empty string.
\<close>

definition formatHistoricalTrackerData_body ::
  "host \<Rightarrow> jv \<Rightarrow> jv \<Rightarrow> string \<Rightarrow> bool \<Rightarrow> string option" where
  "formatHistoricalTrackerData_body H trackerData trackerConfig userName useAllEnabled = do {
     a \<leftarrow> historical_userStats H trackerData trackerConfig userName useAllEnabled;
     b \<leftarrow> historical_infoBox H trackerData trackerConfig useAllEnabled;
     c \<leftarrow> historical_characters H trackerData trackerConfig useAllEnabled;
     Some (trim (a @ b @ c)) }"

definition formatHistoricalTrackerData :: "host \<Rightarrow> jv \<Rightarrow> jv \<Rightarrow> string \<Rightarrow> bool \<Rightarrow> string" where
  "formatHistoricalTrackerData H trackerData trackerConfig userName useAllEnabled =
     (if \<not> truthy trackerData \<or> \<not> truthy trackerConfig then []
      else case formatHistoricalTrackerData_body H trackerData trackerConfig userName useAllEnabled of
             Some formatted \<Rightarrow> formatted
           | None \<Rightarrow> [])"

section \<open>The persisted fields of a snapshot\<close>

text \<open>
  A configuration entry persists when its \<^verbatim>\<open>persistInHistory\<close> flag is \<^verbatim>\<open>true\<close>; the
  inventory and the quests persist when the flag of their own in the configuration of
  the player stats is set. \<open>persisted_fields\<close> is a snapshot without the fields that
  do not persist: of the player stats it keeps the stats whose configuration entry,
  found by the id of the stat, persists, and the status, the skills, the inventory and
  the quests when their section persists; of the scene information the widgets whose
  entry persists; of a character the name, the details whose custom field persists, and
  the thoughts when they persist. (A stat is also kept when looking its entry up throws.)
  A payload that is a JSON text is replaced by the value it parses to, without these
  fields; a payload that does not parse is left as it is.
\<close>

definition persists :: "jv \<Rightarrow> bool" where
  "persists c = (js_get_opt c ''persistInHistory'' = JBool True)"

text \<open>The members of an object whose keys satisfy \<open>P\<close>, and the object with \<open>f\<close> applied
  to the member \<open>k\<close>.\<close>

definition keep_keys :: "(string \<Rightarrow> bool) \<Rightarrow> (string \<times> jv) list \<Rightarrow> (string \<times> jv) list" where
  "keep_keys P kvs = filter (\<lambda>(k, v). P k) kvs"

definition at_key :: "string \<Rightarrow> (jv \<Rightarrow> jv) \<Rightarrow> (string \<times> jv) list \<Rightarrow> (string \<times> jv) list" where
  "at_key k f kvs = map (\<lambda>(k', v). if k' = k then (k', f v) else (k', v)) kvs"

text \<open>\<^verbatim>\<open>customStats.find(s => s.id === stat.id)\<close>\<close>

definition stat_config :: "jv \<Rightarrow> jv \<Rightarrow> jv option" where
  "stat_config customStats stat =
     array_find (\<lambda>s. do { i \<leftarrow> js_get s ''id''; j \<leftarrow> js_get stat ''id''; Some (strict_eq i j) })
       customStats"

definition stat_persists :: "jv \<Rightarrow> jv \<Rightarrow> bool" where
  "stat_persists customStats stat =
     (case stat_config customStats stat of Some c \<Rightarrow> persists c | None \<Rightarrow> True)"

definition persisted_stats :: "jv \<Rightarrow> jv \<Rightarrow> jv" where
  "persisted_stats customStats stats =
     (case stats of JArr xs \<Rightarrow> JArr (filter (stat_persists customStats) xs) | _ \<Rightarrow> stats)"

definition userStats_field_persists :: "jv \<Rightarrow> string \<Rightarrow> bool" where
  "userStats_field_persists c k =
     (k = ''stats''
      \<or> k = ''status'' \<and> persists (js_get_opt c ''statusSection'')
      \<or> k = ''skills'' \<and> persists (js_get_opt c ''skillsSection'')
      \<or> k = ''inventory'' \<and> truthy (js_get_opt c ''inventoryPersistInHistory'')
      \<or> k = ''quests'' \<and> truthy (js_get_opt c ''questsPersistInHistory''))"

definition persisted_userStats :: "jv \<Rightarrow> jv \<Rightarrow> jv" where
  "persisted_userStats c d =
     (case d of
        JObj kvs \<Rightarrow> JObj (at_key ''stats'' (persisted_stats (js_get_opt c ''customStats''))
                          (keep_keys (userStats_field_persists c) kvs))
      | _ \<Rightarrow> d)"

definition widget_keys :: "string list" where
  "widget_keys = [''date'', ''time'', ''weather'', ''temperature'', ''location'', ''recentEvents'']"

definition persisted_infoBox :: "jv \<Rightarrow> jv \<Rightarrow> jv" where
  "persisted_infoBox c d =
     (case d of
        JObj kvs \<Rightarrow> JObj (keep_keys (\<lambda>k. k \<in> set widget_keys
                             \<and> persists (js_get_opt (js_get_opt c ''widgets'') k)) kvs)
      | _ \<Rightarrow> d)"

definition persisted_detail_keys :: "jv \<Rightarrow> string list" where
  "persisted_detail_keys c =
     concat (map (\<lambda>field. if persists field
                           then (case String (js_get_opt field ''id'') of Some k \<Rightarrow> [k] | None \<Rightarrow> [])
                           else [])
       (case iterate (js_get_opt c ''customFields'') of Some fs \<Rightarrow> fs | None \<Rightarrow> []))"

definition persisted_details :: "jv \<Rightarrow> jv \<Rightarrow> jv" where
  "persisted_details c d =
     (case d of JObj kvs \<Rightarrow> JObj (keep_keys (\<lambda>k. k \<in> set (persisted_detail_keys c)) kvs)
      | _ \<Rightarrow> d)"

definition persisted_character :: "jv \<Rightarrow> jv \<Rightarrow> jv" where
  "persisted_character c char =
     (case char of
        JObj kvs \<Rightarrow> JObj (at_key ''details'' (persisted_details c)
                          (keep_keys (\<lambda>k. k = ''name'' \<or> k = ''details''
                             \<or> k = ''thoughts'' \<and> persists (js_get_opt c ''thoughts'')) kvs))
      | _ \<Rightarrow> char)"

definition persisted_characters :: "jv \<Rightarrow> jv \<Rightarrow> jv" where
  "persisted_characters c d =
     (case d of
        JArr chars \<Rightarrow> JArr (map (persisted_character c) chars)
      | JObj kvs \<Rightarrow>
          (case lookup kvs ''characters'' of
             JArr chars \<Rightarrow> JObj [(''characters'', JArr (map (persisted_character c) chars))]
           | _ \<Rightarrow> d)
      | _ \<Rightarrow> d)"

definition persisted_payload :: "host \<Rightarrow> (jv \<Rightarrow> jv) \<Rightarrow> jv \<Rightarrow> jv" where
  "persisted_payload H erase payload =
     (if truthy payload then
        case parse_payload H payload of
          Some d \<Rightarrow> if erase d = d then payload else erase d
        | None \<Rightarrow> payload
      else payload)"

definition persisted_fields :: "host \<Rightarrow> jv \<Rightarrow> jv \<Rightarrow> jv" where
  "persisted_fields H config snapshot =
     (case snapshot of
        JObj kvs \<Rightarrow> JObj
          (at_key ''userStats''
             (persisted_payload H (persisted_userStats (js_get_opt config ''userStats'')))
          (at_key ''infoBox''
             (persisted_payload H (persisted_infoBox (js_get_opt config ''infoBox'')))
          (at_key ''characterThoughts''
             (persisted_payload H (persisted_characters (js_get_opt config ''presentCharacters'')))
             kvs)))
      | _ \<Rightarrow> snapshot)"

section \<open>The historical context map\<close>

text \<open>
  \<^verbatim>\<open>generateSeparateUpdatePrompt\<close> builds \<^verbatim>\<open>contextInjectionMap\<close> over
  \<^verbatim>\<open>recentMessages\<close>, the last \<^verbatim>\<open>updateDepth\<close> messages of the chat. A chat message is
  an object of the host application; the fields the code reads are kept.
\<close>

record message =
  is_user :: jv
  is_system :: jv
  mes :: string
  swipe_id :: jv
  extra :: jv
  swipe_info :: jv

text \<open>
  A JavaScript \<^verbatim>\<open>Map\<close> keyed by message indices: its entries in insertion order;
  \<^verbatim>\<open>set\<close> on a key that is present replaces the value where it stands.
\<close>

type_synonym injection_map = "(nat \<times> string) list"

definition map_has :: "injection_map \<Rightarrow> nat \<Rightarrow> bool" where
  "map_has m k = (k \<in> set (map fst m))"

definition map_get :: "injection_map \<Rightarrow> nat \<Rightarrow> string" where
  "map_get m k = (case map_of m k of Some v \<Rightarrow> v | None \<Rightarrow> [])"

fun map_set :: "injection_map \<Rightarrow> nat \<Rightarrow> string \<Rightarrow> injection_map" where
  "map_set [] k v = [(k, v)]"
| "map_set ((k', v') # m) k v = (if k' = k then (k, v) # m else (k', v') # map_set m k v)"

text \<open>
  The backward scan for the last assistant message: \<open>scan_lastAssistant ms n\<close> looks
  at the indices below \<open>n\<close>, the highest first, and is \<open>-1\<close> when none of them holds
  an assistant message.
\<close>

definition is_assistant :: "message \<Rightarrow> bool" where
  "is_assistant msg = (\<not> truthy (is_user msg) \<and> \<not> truthy (is_system msg))"

fun scan_lastAssistant :: "message list \<Rightarrow> nat \<Rightarrow> int" where
  "scan_lastAssistant ms 0 = - 1"
| "scan_lastAssistant ms (Suc i) =
     (if is_assistant (ms ! i) then int i else scan_lastAssistant ms i)"

definition lastAssistantIdx :: "message list \<Rightarrow> int" where
  "lastAssistantIdx ms = scan_lastAssistant ms (length ms)"

text \<open>
  The backward scan from \<open>i - 1\<close> for the user message before message \<open>i\<close>:
  \<open>scan_user ms i j\<close> looks at the indices below \<open>j\<close>, the highest first, and
  \<^verbatim>\<open>targetIdx\<close> stays \<open>i\<close> when none of them holds a user message.
\<close>

fun scan_user :: "message list \<Rightarrow> nat \<Rightarrow> nat \<Rightarrow> nat" where
  "scan_user ms i 0 = i"
| "scan_user ms i (Suc j) =
     (if truthy (is_user (ms ! j)) \<and> \<not> truthy (is_system (ms ! j)) then j
      else scan_user ms i j)"

text \<open>The tracker data stored with a message for its current swipe, \<^verbatim>\<open>undefined\<close>
  when the loop skips the message for want of it. The swipe id is used as a property
  key, which prints it.\<close>

definition message_trackerData :: "message \<Rightarrow> jv option" where
  "message_trackerData msg = do {
     let currentSwipeId = js_or (swipe_id msg) (JNum 0);
     let inExtra = js_get_opt (extra msg) ''rpg_companion_swipes'';
     swipeData \<leftarrow> (if \<not> truthy inExtra \<and> truthy (swipe_info msg) then do {
         key \<leftarrow> String currentSwipeId;
         let swipe = js_get_opt (swipe_info msg) key;
         Some (if truthy swipe then js_get_opt (js_get_opt swipe ''extra'') ''rpg_companion_swipes''
               else inExtra) }
       else Some inExtra);
     if \<not> truthy swipeData then Some JUndef
     else do { key \<leftarrow> String currentSwipeId; Some (js_get_opt swipeData key) } }"

text \<open>One round of the loop over \<^verbatim>\<open>recentMessages\<close>, at index \<open>i\<close>; the loop runs
  outside every \<^verbatim>\<open>try\<close>.\<close>

definition injection_step ::
  "host \<Rightarrow> jv \<Rightarrow> jv \<Rightarrow> string \<Rightarrow> message list \<Rightarrow> nat \<Rightarrow> injection_map
    \<Rightarrow> injection_map option" where
  "injection_step H historyPersistence trackerConfig userName recentMessages i m =
     (let msg = recentMessages ! i;
          position = js_or (js_get_opt historyPersistence ''injectionPosition'')
                       (JStr ''assistant_message_end'')
      in if truthy (is_user msg) \<or> truthy (is_system msg) then Some m
         else if int i = lastAssistantIdx recentMessages then Some m
         else do {
           trackerData \<leftarrow> message_trackerData msg;
           if \<not> truthy trackerData then Some m
           else
             let useAllEnabled =
                   strict_eq (js_get_opt historyPersistence ''sendAllEnabledOnRefresh'') (JBool True);
                 formattedContext =
                   formatHistoricalTrackerData H trackerData trackerConfig userName useAllEnabled
             in if formattedContext = [] then Some m
                else do {
                  preamble \<leftarrow> String (js_or (js_get_opt historyPersistence ''contextPreamble'')
                                         (JStr ''Context for that moment:''));
                  let wrappedContext = NL @ preamble @ NL @ formattedContext;
                  let targetIdx = (if strict_eq position (JStr ''user_message_end'')
                                   then scan_user recentMessages i i else i);
                  Some (if strict_eq position (JStr ''user_message_end'') \<and> targetIdx = i then m
                        else if map_has m targetIdx
                        then map_set m targetIdx (map_get m targetIdx @ wrappedContext)
                        else map_set m targetIdx wrappedContext) } })"

definition contextInjectionMap ::
  "host \<Rightarrow> jv \<Rightarrow> jv \<Rightarrow> string \<Rightarrow> message list \<Rightarrow> injection_map option" where
  "contextInjectionMap H historyPersistence trackerConfig userName recentMessages =
     (if truthy (js_get_opt historyPersistence ''enabled'')
      then for_of [0..<length recentMessages] []
             (\<lambda>m i. injection_step H historyPersistence trackerConfig userName recentMessages i m)
      else Some [])"

subsection \<open>The keys of the map\<close>

lemma keys_map_set: "fst ` set (map_set m k v) = insert k (fst ` set m)"
proof (induction m)
  case Nil
  show ?case by simp
next
  case (Cons p m)
  obtain k' v' where p: "p = (k', v')" by (cases p)
  show ?case
  proof (cases "k' = k")
    case True
    with p show ?thesis by simp
  next
    case False
    with p Cons show ?thesis by (simp add: insert_commute)
  qed
qed

lemma scan_lastAssistant_is_assistant:
  "scan_lastAssistant ms n = int t \<Longrightarrow> is_assistant (ms ! t)"
  by (induction n) (auto split: if_splits)

lemma scan_user_is_user:
  "scan_user ms i j \<noteq> i \<Longrightarrow> truthy (is_user (ms ! scan_user ms i j))"
  by (induction j) (auto split: if_splits)

lemma user_target_not_lastAssistant:
  assumes "scan_user ms i i \<noteq> i"
  shows "int (scan_user ms i i) \<noteq> lastAssistantIdx ms"
proof
  assume "int (scan_user ms i i) = lastAssistantIdx ms"
  then have "is_assistant (ms ! scan_user ms i i)"
    unfolding lastAssistantIdx_def by (intro scan_lastAssistant_is_assistant) simp
  moreover have "truthy (is_user (ms ! scan_user ms i i))"
    using assms by (rule scan_user_is_user)
  ultimately show False by (simp add: is_assistant_def)
qed

text \<open>A round of the loop leaves the map as it is, or sets one key, which is not the
  index of the last assistant message.\<close>

lemma injection_step_cases:
  assumes "injection_step H hp cfg u ms i m = Some m'"
  shows "m' = m \<or> (\<exists>t v. m' = map_set m t v \<and> int t \<noteq> lastAssistantIdx ms)"
proof -
  define position where
    "position = js_or (js_get_opt hp ''injectionPosition'') (JStr ''assistant_message_end'')"
  define t where
    "t = (if strict_eq position (JStr ''user_message_end'') then scan_user ms i i else i)"
  define fmt where "fmt = (\<lambda>td. formatHistoricalTrackerData H td cfg u
        (strict_eq (js_get_opt hp ''sendAllEnabledOnRefresh'') (JBool True)))"
  define wrap where "wrap = (\<lambda>td pre. NL @ pre @ NL @ fmt td)"
  have step: "injection_step H hp cfg u ms i m =
     (if truthy (is_user (ms ! i)) \<or> truthy (is_system (ms ! i)) \<or> int i = lastAssistantIdx ms
      then Some m
      else do {
        td \<leftarrow> message_trackerData (ms ! i);
        if \<not> truthy td \<or> fmt td = [] then Some m
        else do {
          pre \<leftarrow> String (js_or (js_get_opt hp ''contextPreamble'') (JStr ''Context for that moment:''));
          Some (if strict_eq position (JStr ''user_message_end'') \<and> t = i then m
                else if map_has m t then map_set m t (map_get m t @ wrap td pre)
                else map_set m t (wrap td pre)) } })"
    unfolding injection_step_def Let_def position_def t_def fmt_def wrap_def
    by (auto intro!: Option.bind_cong)
  show ?thesis
  proof (cases "truthy (is_user (ms ! i)) \<or> truthy (is_system (ms ! i))
      \<or> int i = lastAssistantIdx ms")
    case True
    with assms step show ?thesis by simp
  next
    case False
    then have i: "int i \<noteq> lastAssistantIdx ms" by simp
    have target: "int t \<noteq> lastAssistantIdx ms"
      if "\<not> (strict_eq position (JStr ''user_message_end'') \<and> t = i)"
      using that i user_target_not_lastAssistant [of ms i] unfolding t_def by presburger
    from assms step False obtain td where td: "message_trackerData (ms ! i) = Some td"
      by (cases "message_trackerData (ms ! i)") simp_all
    show ?thesis
    proof (cases "\<not> truthy td \<or> fmt td = []")
      case True
      with assms step False td show ?thesis by simp
    next
      case nonempty: False
      from assms step False td nonempty obtain pre where
        pre: "String (js_or (js_get_opt hp ''contextPreamble'') (JStr ''Context for that moment:''))
                = Some pre"
        by (cases "String (js_or (js_get_opt hp ''contextPreamble'') (JStr ''Context for that moment:''))")
          simp_all
      from assms step False td nonempty pre have m': "m' =
          (if strict_eq position (JStr ''user_message_end'') \<and> t = i then m
           else if map_has m t then map_set m t (map_get m t @ wrap td pre)
           else map_set m t (wrap td pre))"
        by simp
      show ?thesis
      proof (cases "strict_eq position (JStr ''user_message_end'') \<and> t = i")
        case True
        with m' show ?thesis by simp
      next
        case False
        then have "int t \<noteq> lastAssistantIdx ms" by (rule target)
        moreover from False m' have
          "m' = map_set m t (map_get m t @ wrap td pre) \<or> m' = map_set m t (wrap td pre)"
          by presburger
        ultimately show ?thesis by blast
      qed
    qed
  qed
qed

lemma injection_step_keys:
  assumes old: "\<And>k. k \<in> fst ` set m \<Longrightarrow> int k \<noteq> lastAssistantIdx ms"
    and step: "injection_step H hp cfg u ms i m = Some m'"
    and k: "k \<in> fst ` set m'"
  shows "int k \<noteq> lastAssistantIdx ms"
proof -
  from injection_step_cases [OF step] show ?thesis
  proof
    assume "m' = m"
    with k old show ?thesis by simp
  next
    assume "\<exists>t v. m' = map_set m t v \<and> int t \<noteq> lastAssistantIdx ms"
    then obtain t v where m': "m' = map_set m t v" and t: "int t \<noteq> lastAssistantIdx ms"
      by blast
    from k have "k = t \<or> k \<in> fst ` set m"
      unfolding m' keys_map_set by simp
    with t old show ?thesis by blast
  qed
qed

lemma for_of_injection_step_keys:
  assumes "\<And>k. k \<in> fst ` set m \<Longrightarrow> int k \<noteq> lastAssistantIdx ms"
    and "for_of is m (\<lambda>m i. injection_step H hp cfg u ms i m) = Some r"
    and "k \<in> fst ` set r"
  shows "int k \<noteq> lastAssistantIdx ms"
  using assms
proof (induction "is" arbitrary: m)
  case Nil
  from Nil(2) have "r = m" by simp
  with Nil(3) have "k \<in> fst ` set m" by simp
  then show ?case by (rule Nil(1))
next
  case (Cons i "is")
  from Cons.prems(2) obtain m' where step: "injection_step H hp cfg u ms i m = Some m'"
    and rest: "for_of is m' (\<lambda>m i. injection_step H hp cfg u ms i m) = Some r"
    by (cases "injection_step H hp cfg u ms i m") auto
  show ?case
  proof (rule Cons.IH [OF _ rest Cons.prems(3)])
    fix k' assume "k' \<in> fst ` set m'"
    with Cons.prems(1) step show "int k' \<noteq> lastAssistantIdx ms"
      by (rule injection_step_keys)
  qed
qed

text \<open>The loop throws only where it prints a swipe id or the preamble.\<close>

lemma message_trackerData_returns:
  "String (js_or (swipe_id msg) (JNum 0)) \<noteq> None \<Longrightarrow> \<exists>S. message_trackerData msg = Some S"
  by (auto simp: message_trackerData_def Let_def)

lemma injection_step_returns:
  assumes "String (js_or (js_get_opt hp ''contextPreamble'') (JStr ''Context for that moment:''))
             \<noteq> None"
    and "String (js_or (swipe_id (ms ! i)) (JNum 0)) \<noteq> None"
  shows "\<exists>m'. injection_step H hp cfg u ms i m = Some m'"
proof -
  obtain S where "message_trackerData (ms ! i) = Some S"
    using message_trackerData_returns [OF assms(2)] by blast
  with assms(1) show ?thesis
    by (auto simp: injection_step_def Let_def)
qed

lemma contextInjectionMap_returns:
  assumes "String (js_or (js_get_opt hp ''contextPreamble'') (JStr ''Context for that moment:''))
             \<noteq> None"
    and "\<forall>msg \<in> set ms. String (js_or (swipe_id msg) (JNum 0)) \<noteq> None"
  shows "\<exists>m. contextInjectionMap H hp cfg u ms = Some m"
proof (cases "truthy (js_get_opt hp ''enabled'')")
  case False
  then show ?thesis by (simp add: contextInjectionMap_def)
next
  case True
  have "\<exists>r. for_of [0..<length ms] [] (\<lambda>m i. injection_step H hp cfg u ms i m) = Some r"
  proof (rule for_of_total)
    fix m :: injection_map and i assume "i \<in> set [0..<length ms]"
    then have "ms ! i \<in> set ms" by simp
    with assms(2) have "String (js_or (swipe_id (ms ! i)) (JNum 0)) \<noteq> None" by blast
    with assms(1) show "\<exists>m'. injection_step H hp cfg u ms i m = Some m'"
      by (rule injection_step_returns)
  qed
  with True show ?thesis by (simp add: contextInjectionMap_def)
qed

section \<open>The committed trackers in a prompt\<close>

text \<open>
  The module state that \<^verbatim>\<open>generateTrackerExample\<close> and \<^verbatim>\<open>generateContextualSummary\<close>
  read: the settings of the extension and the committed tracker data, one payload for
  each category.
\<close>

record extensionSettings =
  showUserStats :: jv
  showInfoBox :: jv
  showCharacterThoughts :: jv
  trackerConfig :: jv
  classicStats :: jv
  level :: jv
  lastDiceRoll :: jv

record committedTrackerData =
  userStats :: jv
  infoBox :: jv
  characterThoughts :: jv

definition fence :: string where
  "fence = replicate 3 (CHR 0x60)"

definition dq :: string where
  "dq = [CHR 0x22]"

subsection \<open>generateTrackerExample\<close>

text \<open>
  \<^verbatim>\<open>applyLocks\<close> is imported from \<^verbatim>\<open>lockManager.js\<close>; it is a parameter here, and
  \<open>None\<close> is a call of it that throws. \<open>json_entry\<close> is the \<^verbatim>\<open>try\<close> block of one
  category of \<^verbatim>\<open>generateTrackerExample\<close>, under the test that guards it: the payload is
  parsed (\<^verbatim>\<open>JSON.parse\<close> prints its argument first) and the locks are applied, and the
  result is the entry of the unified object that is pushed on \<^verbatim>\<open>parts\<close>. It is \<open>None\<close>
  when the category is not shown or has no payload, and when the block throws.
\<close>

definition json_entry ::
  "host \<Rightarrow> (jv \<Rightarrow> string \<Rightarrow> jv option) \<Rightarrow> jv \<Rightarrow> jv \<Rightarrow> string \<Rightarrow> string \<Rightarrow> string option" where
  "json_entry H applyLocks shown payload key lockType =
     (if truthy shown \<and> truthy payload then do {
        source \<leftarrow> String payload;
        parsed \<leftarrow> JSON_parse H source;
        lockedData \<leftarrow> applyLocks payload lockType;
        locked \<leftarrow> String lockedData;
        Some (''  '' @ dq @ key @ dq @ '': '' @ locked) }
      else None)"

text \<open>
  One category: the entry is pushed on \<^verbatim>\<open>parts\<close>, or the \<^verbatim>\<open>catch\<close> appends the payload
  to \<^verbatim>\<open>example\<close> between code fences, which throws when the payload cannot be printed.
  The state is the pair of \<^verbatim>\<open>example\<close> and \<^verbatim>\<open>parts\<close>.
\<close>

definition example_category ::
  "host \<Rightarrow> (jv \<Rightarrow> string \<Rightarrow> jv option) \<Rightarrow> jv \<Rightarrow> jv \<Rightarrow> string \<Rightarrow> string \<Rightarrow> string
    \<Rightarrow> string \<times> string list \<Rightarrow> (string \<times> string list) option" where
  "example_category H applyLocks shown payload key lockType fence_end st =
     (if truthy shown \<and> truthy payload then
        case json_entry H applyLocks shown payload key lockType of
          Some entry \<Rightarrow> Some (fst st, snd st @ [entry])
        | None \<Rightarrow> do {
            printed \<leftarrow> String payload;
            Some (fst st @ fence @ NL @ printed @ fence_end, snd st) }
      else Some st)"

definition example_state ::
  "host \<Rightarrow> (jv \<Rightarrow> string \<Rightarrow> jv option) \<Rightarrow> extensionSettings \<Rightarrow> committedTrackerData
    \<Rightarrow> (string \<times> string list) option" where
  "example_state H applyLocks S D = do {
     a \<leftarrow> example_category H applyLocks (showUserStats S) (userStats D)
            ''userStats'' ''userStats'' (NL @ fence @ NL) ([], []);
     b \<leftarrow> example_category H applyLocks (showInfoBox S) (infoBox D)
            ''infoBox'' ''infoBox'' (NL @ fence @ NL) a;
     example_category H applyLocks (showCharacterThoughts S) (characterThoughts D)
       ''characters'' ''characters'' (NL @ fence) b }"

definition generateTrackerExample ::
  "host \<Rightarrow> (jv \<Rightarrow> string \<Rightarrow> jv option) \<Rightarrow> extensionSettings \<Rightarrow> committedTrackerData
    \<Rightarrow> string option" where
  "generateTrackerExample H applyLocks S D = do {
     st \<leftarrow> example_state H applyLocks S D;
     let example = (if length (snd st) > 0
                    then ''{'' @ NL @ join ('','' @ NL) (snd st) @ NL @ ''}''
                    else fst st);
     Some (trim example) }"

text \<open>
  The entries of the unified object, and the committed data with the payload of every
  category that contributes no entry taken away.
\<close>

definition json_entries ::
  "host \<Rightarrow> (jv \<Rightarrow> string \<Rightarrow> jv option) \<Rightarrow> extensionSettings \<Rightarrow> committedTrackerData
    \<Rightarrow> string list" where
  "json_entries H applyLocks S D = List.map_filter id
     [json_entry H applyLocks (showUserStats S) (userStats D) ''userStats'' ''userStats'',
      json_entry H applyLocks (showInfoBox S) (infoBox D) ''infoBox'' ''infoBox'',
      json_entry H applyLocks (showCharacterThoughts S) (characterThoughts D)
        ''characters'' ''characters'']"

definition without_legacy_text ::
  "host \<Rightarrow> (jv \<Rightarrow> string \<Rightarrow> jv option) \<Rightarrow> extensionSettings \<Rightarrow> committedTrackerData
    \<Rightarrow> committedTrackerData" where
  "without_legacy_text H applyLocks S D =
     \<lparr>userStats =
        (if json_entry H applyLocks (showUserStats S) (userStats D) ''userStats'' ''userStats'' = None
         then JUndef else userStats D),
      infoBox =
        (if json_entry H applyLocks (showInfoBox S) (infoBox D) ''infoBox'' ''infoBox'' = None
         then JUndef else infoBox D),
      characterThoughts =
        (if json_entry H applyLocks (showCharacterThoughts S) (characterThoughts D)
              ''characters'' ''characters'' = None
         then JUndef else characterThoughts D)\<rparr>"

subsection \<open>generateContextualSummary\<close>

definition default_rpgAttributes :: jv where
  "default_rpgAttributes = JArr (map (\<lambda>(i, n).
       JObj [(''id'', JStr i), (''name'', JStr n), (''enabled'', JBool True)])
     [(''str'', ''STR''), (''dex'', ''DEX''), (''con'', ''CON''),
      (''int'', ''INT''), (''wis'', ''WIS''), (''cha'', ''CHA'')])"

text \<open>\<^verbatim>\<open>buildAttributesString\<close>; it runs outside every \<^verbatim>\<open>try\<close>.\<close>

definition buildAttributesString :: "extensionSettings \<Rightarrow> string option" where
  "buildAttributesString S = do {
     let userStatsConfig = js_get_opt (trackerConfig S) ''userStats'';
     let rpgAttributes = js_or (js_get_opt userStatsConfig ''rpgAttributes'') default_rpgAttributes;
     attrs \<leftarrow> (case rpgAttributes of JArr xs \<Rightarrow> Some xs | _ \<Rightarrow> None);
     let enabledAttributes = filter (\<lambda>attr. truthy attr \<and> truthy (js_get_opt attr ''enabled'')
           \<and> truthy (js_get_opt attr ''name'') \<and> truthy (js_get_opt attr ''id'')) attrs;
     attributeParts \<leftarrow> mapM (\<lambda>attr. do {
         key \<leftarrow> String (js_get_opt attr ''id'');
         stat \<leftarrow> js_get (classicStats S) key;
         name \<leftarrow> String (js_get_opt attr ''name'');
         shown \<leftarrow> String (if stat \<noteq> JUndef then stat else JNum 10);
         Some (name @ '' '' @ shown) }) enabledAttributes;
     let showLevel = \<not> strict_eq (js_get_opt userStatsConfig ''showLevel'') (JBool False);
     levelPart \<leftarrow> (if showLevel then do { shown \<leftarrow> String (level S); Some [''LVL '' @ shown] }
                   else Some []);
     Some (join '', '' (attributeParts @ levelPart)) }"

text \<open>One category of the summary: the formatter's text and a line break, when the
  category is shown, has a payload and the text is not empty.\<close>

definition summary_category :: "host \<Rightarrow> jv \<Rightarrow> jv \<Rightarrow> jv \<Rightarrow> string \<Rightarrow> string \<Rightarrow> string" where
  "summary_category H cfg shown payload trackerType userName =
     (if truthy shown \<and> truthy payload then
        let formatted = formatTrackerDataForContext H cfg payload trackerType userName
        in if formatted \<noteq> [] then formatted @ NL else []
      else [])"

definition generateContextualSummary ::
  "host \<Rightarrow> extensionSettings \<Rightarrow> committedTrackerData \<Rightarrow> string \<Rightarrow> string option" where
  "generateContextualSummary H S D userName = do {
     let a = summary_category H (trackerConfig S) (showUserStats S) (userStats D)
               ''userStats'' userName;
     let b = summary_category H (trackerConfig S) (showInfoBox S) (infoBox D)
               ''infoBox'' userName;
     let c = summary_category H (trackerConfig S) (showCharacterThoughts S) (characterThoughts D)
               ''characters'' userName;
     let userStatsConfig = js_get_opt (trackerConfig S) ''userStats'';
     let alwaysSendAttributes = js_get_opt userStatsConfig ''alwaysSendAttributes'';
     let showRPGAttributes = \<not> strict_eq (js_get_opt userStatsConfig ''showRPGAttributes'') (JBool False);
     let shouldSendAttributes = (truthy alwaysSendAttributes \<and> showRPGAttributes);
     d \<leftarrow> (if shouldSendAttributes then do {
            attributesString \<leftarrow> buildAttributesString S;
            Some (userName @ [CHR 0x27] @ ''s attributes: '' @ attributesString @ NL) }
          else Some []);
     e \<leftarrow> (if truthy (lastDiceRoll S) then do {
            total \<leftarrow> js_get (lastDiceRoll S) ''total'';
            shownTotal \<leftarrow> String total;
            formula \<leftarrow> js_get (lastDiceRoll S) ''formula'';
            shownFormula \<leftarrow> String formula;
            Some (userName @ '' rolled '' @ shownTotal @ '' on the last '' @ shownFormula
                  @ '' roll. ''
                  @ (if shouldSendAttributes then ''Based on their attributes, decide'' else ''Decide'')
                  @ '' whether they succeeded or failed the action they attempted.'' @ NL @ NL) }
          else Some (if shouldSendAttributes then NL else []));
     Some (trim (a @ b @ c @ d @ e)) }"

section \<open>Example data\<close>

text \<open>
  The snapshots and configurations of the examples. \<open>example_parse\<close> agrees with
  \<^verbatim>\<open>JSON.parse\<close> on the texts the examples use: two JSON texts, and \<open>None\<close> (a
  SyntaxError) for text that is no JSON, such as a tracker in the old text format.
\<close>

definition hp_snapshot :: jv where
  "hp_snapshot =
     JObj [(''stats'', JArr [JObj [(''id'', JStr ''hp''), (''name'', JStr ''HP''), (''value'', JNum 7)]])]"

definition hp_text :: string where
  \<open>hp_text = ''{"stats":[{"id":"hp","name":"HP","value":7}]}''\<close>

definition legacy_text :: string where
  "legacy_text = ''Location: Forest''"

definition example_parse :: "string \<Rightarrow> jv option" where
  "example_parse s =
     (if s = hp_text then Some hp_snapshot else if s = ''{}'' then Some (JObj []) else None)"

definition example_host :: host where
  "example_host = \<lparr>JSON_parse = example_parse, str_gt1 = (\<lambda>s. False)\<rparr>"

text \<open>A configuration in which the stat \<open>hp\<close> and the location persist in the history,
  and the stat \<open>mp\<close> and the date do not; the time has no entry.\<close>

definition example_config :: jv where
  "example_config = JObj
     [(''userStats'', JObj
         [(''customStats'',
             JArr [JObj [(''id'', JStr ''hp''), (''name'', JStr ''HP''),
                         (''maxValue'', JNum 10), (''persistInHistory'', JBool True)],
                   JObj [(''id'', JStr ''mp''), (''name'', JStr ''MP''),
                         (''persistInHistory'', JBool False)]]),
          (''statsDisplayMode'', JStr ''number'')]),
      (''infoBox'', JObj
         [(''widgets'', JObj [(''location'', JObj [(''persistInHistory'', JBool True)]),
                              (''date'', JObj [(''persistInHistory'', JBool False)])])]),
      (''presentCharacters'', JObj [(''customFields'', JArr []), (''thoughts'', JObj [])])]"

text \<open>The sun emoji, U+2600 U+FE0F, in UTF-8.\<close>

definition sun_emoji :: string where
  "sun_emoji = [CHR 0xE2, CHR 0x98, CHR 0x80, CHR 0xEF, CHR 0xB8, CHR 0x8F]"

definition scene_snapshot :: jv where
  "scene_snapshot = JObj [(''location'', JStr ''Forest Clearing''),
     (''weather'', JObj [(''emoji'', JStr sun_emoji), (''forecast'', JStr ''Clear'')])]"

definition number_mode_config :: jv where
  "number_mode_config = JObj [(''userStats'', JObj
     [(''customStats'', JArr [JObj [(''id'', JStr ''hp''), (''maxValue'', JNum 10)]]),
      (''statsDisplayMode'', JStr ''number'')])]"

text \<open>Settings that show the player stats and the scene information, with no attributes
  and no dice roll.\<close>

definition example_settings :: extensionSettings where
  "example_settings = \<lparr>showUserStats = JBool True, showInfoBox = JBool True,
     showCharacterThoughts = JBool False, trackerConfig = example_config,
     classicStats = JObj [], level = JNum 1, lastDiceRoll = JNull\<rparr>"

text \<open>
  History settings with the anchor at the end of the assistant message and only the
  persisted fields sent; chat messages of the user and of the model, the latter with the
  tracker data of swipe 0 when it has a snapshot; a snapshot with two stats, a location
  and a date; and an \<^verbatim>\<open>applyLocks\<close> that returns the payload as it is.
\<close>

definition assistant_end_settings :: jv where
  "assistant_end_settings = JObj [(''enabled'', JBool True),
     (''injectionPosition'', JStr ''assistant_message_end''),
     (''sendAllEnabledOnRefresh'', JBool False)]"

definition user_message :: "string \<Rightarrow> message" where
  "user_message text = \<lparr>is_user = JBool True, is_system = JBool False, mes = text,
     swipe_id = JNum 0, extra = JObj [], swipe_info = JUndef\<rparr>"

definition model_message :: "string \<Rightarrow> jv \<Rightarrow> message" where
  "model_message text snapshot = \<lparr>is_user = JBool False, is_system = JBool False, mes = text,
     swipe_id = JNum 0,
     extra = (if snapshot = JUndef then JObj []
              else JObj [(''rpg_companion_swipes'', JObj [(''0'', snapshot)])]),
     swipe_info = JUndef\<rparr>"

definition persisted_snapshot :: jv where
  "persisted_snapshot = JObj
     [(''userStats'', JObj [(''stats'',
         JArr [JObj [(''id'', JStr ''hp''), (''name'', JStr ''HP''), (''value'', JNum 7)],
               JObj [(''id'', JStr ''mp''), (''name'', JStr ''MP''), (''value'', JNum 3)]])]),
      (''infoBox'', JObj [(''location'', JStr ''Forest''), (''date'', JStr ''Monday'')])]"

text \<open>An item whose quantity is an object with a member of its own named
  \<^verbatim>\<open>toString\<close>, as \<^verbatim>\<open>JSON.parse\<close> gives for the text
  \<^verbatim>\<open>{"name":"Potion","quantity":{"toString":1}}\<close>.\<close>

definition unprintable_item :: jv where
  "unprintable_item = JObj [(''name'', JStr ''Potion''), (''quantity'', JObj [(''toString'', JNum 1)])]"

definition keep_payload :: "jv \<Rightarrow> string \<Rightarrow> jv option" where
  "keep_payload payload lockType = Some payload"

text \<open>The lines of a text: its pieces between line breaks.\<close>

fun lines_of :: "string \<Rightarrow> string list" where
  "lines_of [] = [[]]"
| "lines_of (c # cs) =
     (if c = CHR 0x0A then [] # lines_of cs
      else case lines_of cs of l # ls \<Rightarrow> (c # l) # ls | [] \<Rightarrow> [[c]])"

text \<open>The filter of the historical formatter as the specification words it.\<close>

definition spec_included :: "bool \<Rightarrow> jv \<Rightarrow> bool" where
  "spec_included includeAllEnabled c =
     (if includeAllEnabled then js_get_opt c ''enabled'' \<noteq> JBool False
      else js_get_opt c ''persistInHistory'' = JBool True)"

section \<open>Evaluation and auxiliary facts\<close>

lemmas context_eval = getValue_eqs lookup_def Boolean_str_def show_int_def show_nat.simps
  digit_char_def NL_def js_get_opt_def js_or_def array_find_def array_map_def array_length_def
  formatTrackerDataForContext_def formatTrackerDataForContext_body_def infoBox_text_def
  labelled_line_def knownFields_def displayName_of_key_def userStats_text_def
  stats_array_text_def stats_flat_text_def statFieldOrder_def specialFields_def
  formatStatValue_def getMaxValue_def skills_text_def inventory_text_def quests_text_def
  list_line_def call_capitalize_def call_toLowerCase_def characters_text_def

lemmas historical_eval = getValue_historical_eqs lookup_def Boolean_str_def show_int_def
  show_nat.simps digit_char_def NL_def js_get_opt_def js_or_def array_find_def array_map_def
  array_length_def iterate_def slice_0_minus2_def trim_def is_space_def
  shouldInclude_def shouldIncludeStat_def parse_payload_def call_toLowerCase_def
  getValues_historical_def historical_list_part_def historical_stats_part_def
  historical_status_part_def historical_skills_part_def historical_inventory_part_def
  historical_quests_part_def historical_userStats_def historical_widget_def
  historical_infoBox_def historical_character_def historical_characters_def
  formatHistoricalTrackerData_body_def formatHistoricalTrackerData_def

lemmas example_defs = example_host_def example_parse_def example_config_def hp_text_def
  hp_snapshot_def legacy_text_def

lemma lines_of_not_Nil: "lines_of s \<noteq> []"
  by (induction s) (auto split: list.splits)

lemma lines_of_append: "lines_of (a @ CHR 0x0A # b) = lines_of a @ lines_of b"
proof (induction a)
  case Nil
  show ?case by simp
next
  case (Cons c a)
  obtain l ls where "lines_of a = l # ls"
    using lines_of_not_Nil [of a] by (cases "lines_of a") auto
  with Cons show ?case by simp
qed

lemma strict_eq_JBool: "strict_eq v (JBool b) \<longleftrightarrow> v = JBool b"
  by (cases v) auto

lemma format_falsy: "\<not> truthy j \<Longrightarrow> formatTrackerDataForContext H cfg j cat u = []"
  by (simp add: formatTrackerDataForContext_def)

lemma format_unparseable:
  "JSON_parse H s = None \<Longrightarrow> formatTrackerDataForContext H cfg (JStr s) cat u = []"
  by (simp add: formatTrackerDataForContext_def formatTrackerDataForContext_body_def)

lemma format_parsed:
  "JSON_parse H s = Some d \<Longrightarrow> s \<noteq> [] \<Longrightarrow> truthy d \<Longrightarrow> typeof d \<noteq> ''string'' \<Longrightarrow>
     formatTrackerDataForContext H cfg (JStr s) cat u = formatTrackerDataForContext H cfg d cat u"
  by (cases d) (simp_all add: formatTrackerDataForContext_def formatTrackerDataForContext_body_def)

lemma format_empty_userStats:
  "formatTrackerDataForContext H cfg (JObj []) ''userStats'' u = u @ [CHR 0x27] @ ''s Stats:'' @ NL"
  by (simp add: context_eval)

lemma format_empty_infoBox:
  "formatTrackerDataForContext H cfg (JObj []) ''infoBox'' u = ''Info Box:'' @ NL"
  by (simp add: context_eval)

lemma format_empty_other:
  "cat \<noteq> ''userStats'' \<Longrightarrow> cat \<noteq> ''infoBox'' \<Longrightarrow>
     formatTrackerDataForContext H cfg (JObj []) cat u = []"
  by (simp add: context_eval)

lemma format_scene_snapshot:
  "formatTrackerDataForContext H cfg scene_snapshot ''infoBox'' u =
     ''Info Box:'' @ NL @ ''Location: Forest Clearing'' @ NL
     @ ''Weather: '' @ sun_emoji @ '' Clear'' @ NL"
  by (simp add: scene_snapshot_def context_eval)

lemma format_hp_snapshot:
  "formatTrackerDataForContext H number_mode_config hp_snapshot ''userStats'' u =
     u @ [CHR 0x27] @ ''s Stats:'' @ NL @ ''HP: 7/10'' @ NL"
  by (simp add: hp_snapshot_def number_mode_config_def context_eval)

text \<open>
  On the summary path a category whose payload does not parse contributes nothing, and
  the summary is the one of the same data without that category.
\<close>

lemma summary_category_unparseable:
  "JSON_parse H s = None \<Longrightarrow>
     summary_category H cfg shown (JStr s) cat u = summary_category H cfg shown JUndef cat u"
  by (simp add: summary_category_def format_unparseable)

lemma summary_isolates_parse_failure:
  assumes "JSON_parse H s = None"
  shows "generateContextualSummary H S (D\<lparr>userStats := JStr s\<rparr>) u
           = generateContextualSummary H S (D\<lparr>userStats := JUndef\<rparr>) u"
    and "generateContextualSummary H S (D\<lparr>infoBox := JStr s\<rparr>) u
           = generateContextualSummary H S (D\<lparr>infoBox := JUndef\<rparr>) u"
    and "generateContextualSummary H S (D\<lparr>characterThoughts := JStr s\<rparr>) u
           = generateContextualSummary H S (D\<lparr>characterThoughts := JUndef\<rparr>) u"
  using assms by (simp_all add: generateContextualSummary_def summary_category_unparseable)

text \<open>The map of a window of four messages, user and assistant in turn.\<close>

lemma upt_4: "[0..<length [a, b, c, d]] = [0, Suc 0, Suc (Suc 0), Suc (Suc (Suc 0))]"
  by (simp add: upt_rec)

lemma window_map:
  assumes "truthy (is_user u0)" and "is_assistant a1" and "truthy (is_user u2)" and "is_assistant a3"
    and "message_trackerData a1 = Some S"
  shows "contextInjectionMap H assistant_end_settings cfg u [u0, a1, u2, a3] =
     Some (let f = formatHistoricalTrackerData H S cfg u False
           in if truthy S \<and> f \<noteq> []
              then [(1, NL @ ''Context for that moment:'' @ NL @ f)] else [])"
proof -
  let ?step = "\<lambda>m i. injection_step H assistant_end_settings cfg u [u0, a1, u2, a3] i m"
  have last: "lastAssistantIdx [u0, a1, u2, a3] = 3"
    using assms(4) by (simp add: lastAssistantIdx_def)
  have s0: "?step m 0 = Some m" for m
    using assms(1) by (simp add: injection_step_def Let_def)
  have s2: "?step m (Suc (Suc 0)) = Some m" for m
    using assms(3) by (simp add: injection_step_def Let_def)
  have s3: "?step m (Suc (Suc (Suc 0))) = Some m" for m
    using assms(4) last by (simp add: injection_step_def Let_def is_assistant_def)
  have s1: "?step [] (Suc 0) =
     Some (let f = formatHistoricalTrackerData H S cfg u False
           in if truthy S \<and> f \<noteq> []
              then [(1, NL @ ''Context for that moment:'' @ NL @ f)] else [])"
    using assms(2,5) last
    by (simp add: injection_step_def Let_def is_assistant_def assistant_end_settings_def
        js_get_opt_def js_or_def lookup_def map_has_def)
  have "contextInjectionMap H assistant_end_settings cfg u [u0, a1, u2, a3] =
      for_of [0, Suc 0, Suc (Suc 0), Suc (Suc (Suc 0))] [] ?step"
    unfolding contextInjectionMap_def upt_4
    by (simp add: assistant_end_settings_def js_get_opt_def lookup_def)
  also have "\<dots> = ?step [] (Suc 0) \<bind> (\<lambda>m. Some m)"
    by (simp only: for_of.simps s0 s2 s3 Option.bind.bind_lunit)
  also have "\<dots> = ?step [] (Suc 0)"
    by simp
  finally show ?thesis by (simp only: s1)
qed

lemma trackerData_model_message:
  "truthy S \<Longrightarrow> message_trackerData (model_message t S) = Some S"
  "message_trackerData (model_message t JUndef) = Some JUndef"
  by (auto simp: message_trackerData_def model_message_def Let_def js_get_opt_def js_or_def
      lookup_def show_int_def show_nat.simps digit_char_def)

lemma persisted_snapshot_text:
  "formatHistoricalTrackerData example_host persisted_snapshot example_config ''Bob'' False
     = ''Bob: HP: 7'' @ NL @ ''Location: Forest''"
  by (simp add: historical_eval example_defs persisted_snapshot_def)

lemma example_roles:
  "truthy (is_user (user_message t))" "is_assistant (model_message t S)"
  by (simp_all add: user_message_def model_message_def is_assistant_def)

text \<open>The \<^verbatim>\<open>parts\<close> of \<^verbatim>\<open>generateTrackerExample\<close> are the entries of the categories that
  parse; the function throws only where a payload that gives no entry cannot be printed.\<close>

lemma example_category_parts:
  "example_category H applyLocks shown payload key lockType fence_end st = Some st' \<Longrightarrow>
     snd st' = snd st @ (case json_entry H applyLocks shown payload key lockType of
                           Some e \<Rightarrow> [e] | None \<Rightarrow> [])"
  by (auto simp: example_category_def json_entry_def split: option.splits if_splits bind_splits)

lemma example_category_printable:
  "String payload \<noteq> None \<Longrightarrow>
     \<exists>st'. example_category H applyLocks shown payload key lockType fence_end st = Some st'"
  by (auto simp: example_category_def split: option.splits)

lemma example_category_without_legacy_text:
  "example_category H applyLocks shown
     (if json_entry H applyLocks shown payload key lockType = None then JUndef else payload)
     key lockType fence_end st =
   Some (fst st, snd st @ (case json_entry H applyLocks shown payload key lockType of
                             Some e \<Rightarrow> [e] | None \<Rightarrow> []))"
proof (cases "json_entry H applyLocks shown payload key lockType")
  case None
  then show ?thesis by (simp add: example_category_def)
next
  case (Some e)
  then have "truthy shown \<and> truthy payload"
    by (auto simp: json_entry_def split: if_splits)
  with Some show ?thesis by (simp add: example_category_def)
qed

lemma example_state_parts:
  assumes "example_state H applyLocks S D = Some st"
  shows "snd st = json_entries H applyLocks S D"
proof -
  from assms obtain a b where
    a: "example_category H applyLocks (showUserStats S) (userStats D)
          ''userStats'' ''userStats'' (NL @ fence @ NL) ([], []) = Some a"
    and b: "example_category H applyLocks (showInfoBox S) (infoBox D)
          ''infoBox'' ''infoBox'' (NL @ fence @ NL) a = Some b"
    and c: "example_category H applyLocks (showCharacterThoughts S) (characterThoughts D)
          ''characters'' ''characters'' (NL @ fence) b = Some st"
    by (auto simp: example_state_def split: bind_splits)
  show ?thesis
    unfolding example_category_parts [OF c] example_category_parts [OF b]
      example_category_parts [OF a] json_entries_def
    by (simp add: List.map_filter_simps split: option.splits)
qed

lemma example_state_printable:
  assumes "String (userStats D) \<noteq> None" and "String (infoBox D) \<noteq> None"
    and "String (characterThoughts D) \<noteq> None"
  shows "\<exists>st. example_state H applyLocks S D = Some st"
proof -
  obtain a where a: "example_category H applyLocks (showUserStats S) (userStats D)
          ''userStats'' ''userStats'' (NL @ fence @ NL) ([], []) = Some a"
    using example_category_printable [OF assms(1)] by blast
  obtain b where b: "example_category H applyLocks (showInfoBox S) (infoBox D)
          ''infoBox'' ''infoBox'' (NL @ fence @ NL) a = Some b"
    using example_category_printable [OF assms(2)] by blast
  obtain c where c: "example_category H applyLocks (showCharacterThoughts S) (characterThoughts D)
          ''characters'' ''characters'' (NL @ fence) b = Some c"
    using example_category_printable [OF assms(3)] by blast
  show ?thesis by (simp add: example_state_def a b c)
qed

lemma json_entry_JUndef [simp]: "json_entry H applyLocks shown JUndef key lockType = None"
  by (simp add: json_entry_def)

lemma example_state_without_legacy_text:
  "example_state H applyLocks S (without_legacy_text H applyLocks S D)
     = Some ([], json_entries H applyLocks S D)"
proof -
  let ?W = "without_legacy_text H applyLocks S D"
  have u: "userStats ?W =
      (if json_entry H applyLocks (showUserStats S) (userStats D) ''userStats'' ''userStats'' = None
       then JUndef else userStats D)"
    by (simp add: without_legacy_text_def)
  have i: "infoBox ?W =
      (if json_entry H applyLocks (showInfoBox S) (infoBox D) ''infoBox'' ''infoBox'' = None
       then JUndef else infoBox D)"
    by (simp add: without_legacy_text_def)
  have c: "characterThoughts ?W =
      (if json_entry H applyLocks (showCharacterThoughts S) (characterThoughts D)
            ''characters'' ''characters'' = None
       then JUndef else characterThoughts D)"
    by (simp add: without_legacy_text_def)
  show ?thesis
    apply (simp only: example_state_def u i c)
    apply (simp only: example_category_without_legacy_text Option.bind.bind_lunit fst_conv snd_conv)
    apply (simp add: json_entries_def List.map_filter_simps split: option.splits)
    done
qed

lemma generateTrackerExample_unified:
  assumes "json_entries H applyLocks S D \<noteq> []"
    and "generateTrackerExample H applyLocks S D = Some r"
  shows "r = trim (''{'' @ NL @ join ('','' @ NL) (json_entries H applyLocks S D) @ NL @ ''}'')"
proof -
  from assms(2) obtain st where st: "example_state H applyLocks S D = Some st"
    by (auto simp: generateTrackerExample_def split: bind_splits)
  with assms show ?thesis
    by (simp add: generateTrackerExample_def Let_def example_state_parts [OF st])
qed

lemma generateTrackerExample_without_legacy_text:
  assumes "json_entries H applyLocks S D \<noteq> []"
  shows "generateTrackerExample H applyLocks S (without_legacy_text H applyLocks S D) =
     Some (trim (''{'' @ NL @ join ('','' @ NL) (json_entries H applyLocks S D) @ NL @ ''}''))"
  using assms by (simp add: generateTrackerExample_def example_state_without_legacy_text)

lemma generateTrackerExample_printable:
  assumes "String (userStats D) \<noteq> None" and "String (infoBox D) \<noteq> None"
    and "String (characterThoughts D) \<noteq> None"
  shows "\<exists>r. generateTrackerExample H applyLocks S D = Some r"
  using example_state_printable [OF assms, of H applyLocks S]
  by (auto simp: generateTrackerExample_def)

subsection \<open>The historical text depends on the persisted fields only\<close>

text \<open>
  Without \<^verbatim>\<open>useAllEnabled\<close>, every part of \<^verbatim>\<open>formatHistoricalTrackerData\<close> gives the
  same result on a snapshot and on its persisted fields: a field that does not persist is
  never read, or is read and skipped.
\<close>

lemma shouldInclude_False: "shouldInclude False c = persists c"
  by (simp add: shouldInclude_def persists_def strict_eq_JBool)

lemma shouldIncludeStat_False: "shouldIncludeStat False c = persists c"
  by (simp add: shouldIncludeStat_def persists_def strict_eq_JBool)

lemma lookup_keep_keys: "lookup (keep_keys P kvs) k = (if P k then lookup kvs k else JUndef)"
  by (induction kvs) (auto simp: lookup_def keep_keys_def)

lemma lookup_at_key:
  "f JUndef = JUndef \<Longrightarrow>
     lookup (at_key k f kvs) k' = (if k' = k then f (lookup kvs k) else lookup kvs k')"
  by (induction kvs) (auto simp: lookup_def at_key_def)

lemma js_get_Some: "js_get v k = Some x \<Longrightarrow> js_get_opt v k = x"
  by (simp add: js_get_opt_def)

lemma persists_js_get: "persists c \<Longrightarrow> js_get c k = Some (js_get_opt c k)"
  by (cases c) (auto simp: persists_def js_get_opt_def)

text \<open>The loop over the stats skips a stat whose entry does not persist.\<close>

lemma stats_loop_persisted:
  "for_of (filter (stat_persists cs) xs) s (\<lambda>statsFormatted stat. do {
         configStat \<leftarrow> array_find (\<lambda>s. do {
             i \<leftarrow> js_get s ''id''; j \<leftarrow> js_get stat ''id''; Some (strict_eq i j) }) cs;
         val \<leftarrow> (if shouldIncludeStat False configStat then js_get stat ''value''
                 else Some JUndef);
         if shouldIncludeStat False configStat \<and> val \<noteq> JUndef then do {
           name \<leftarrow> js_get stat ''name'';
           statName \<leftarrow> (if truthy name then Some name else do {
               configName \<leftarrow> js_get configStat ''name'';
               if truthy configName then Some configName else js_get stat ''id'' });
           label \<leftarrow> String statName;
           shown \<leftarrow> String val;
           Some (statsFormatted @ label @ '': '' @ shown @ '', '') }
         else Some statsFormatted })
   = for_of xs s (\<lambda>statsFormatted stat. do {
         configStat \<leftarrow> array_find (\<lambda>s. do {
             i \<leftarrow> js_get s ''id''; j \<leftarrow> js_get stat ''id''; Some (strict_eq i j) }) cs;
         val \<leftarrow> (if shouldIncludeStat False configStat then js_get stat ''value''
                 else Some JUndef);
         if shouldIncludeStat False configStat \<and> val \<noteq> JUndef then do {
           name \<leftarrow> js_get stat ''name'';
           statName \<leftarrow> (if truthy name then Some name else do {
               configName \<leftarrow> js_get configStat ''name'';
               if truthy configName then Some configName else js_get stat ''id'' });
           label \<leftarrow> String statName;
           shown \<leftarrow> String val;
           Some (statsFormatted @ label @ '': '' @ shown @ '', '') }
         else Some statsFormatted })"
  (is "for_of _ s ?body = _")
proof (induction xs arbitrary: s)
  case Nil
  show ?case by simp
next
  case (Cons x xs)
  show ?case
  proof (cases "stat_persists cs x")
    case True
    then show ?thesis by (simp add: Cons cong: Option.bind_cong)
  next
    case False
    then obtain c where c: "stat_config cs x = Some c" and np: "\<not> persists c"
      by (auto simp: stat_persists_def split: option.splits)
    from c np have "?body s x = Some s"
      by (simp add: stat_config_def shouldIncludeStat_False)
    with False show ?thesis by (simp add: Cons)
  qed
qed

lemma js_get_persisted_userStats:
  "js_get (persisted_userStats c (JObj kvs)) k =
     Some (if k = ''stats'' then persisted_stats (js_get_opt c ''customStats'') (lookup kvs ''stats'')
           else if userStats_field_persists c k then lookup kvs k else JUndef)"
  by (simp add: persisted_userStats_def lookup_at_key lookup_keep_keys persisted_stats_def
      userStats_field_persists_def)

lemma stats_part_persisted:
  "historical_stats_part False c (persisted_userStats c d) = historical_stats_part False c d"
proof (cases d)
  case (JObj kvs)
  show ?thesis
  proof (cases "lookup kvs ''stats''")
    case (JArr xs)
    show ?thesis
    proof (cases "js_get c ''customStats''")
      case None
      then show ?thesis
        unfolding JObj historical_stats_part_def js_get_persisted_userStats
        by (simp add: JArr persisted_stats_def)
    next
      case (Some cs)
      then have cs: "js_get_opt c ''customStats'' = cs" by (rule js_get_Some)
      show ?thesis
        unfolding JObj historical_stats_part_def js_get_persisted_userStats
        by (simp add: JArr persisted_stats_def Some cs iterate_def stats_loop_persisted)
    qed
  qed (simp_all add: JObj historical_stats_part_def js_get_persisted_userStats persisted_stats_def)
qed (simp_all add: persisted_userStats_def)

lemma status_part_persisted:
  "historical_status_part H False c (persisted_userStats c d) = historical_status_part H False c d"
proof (cases d)
  case (JObj kvs)
  show ?thesis
  proof (cases "js_get c ''statusSection''")
    case None
    then show ?thesis by (simp add: historical_status_part_def)
  next
    case (Some sec)
    then have sec: "js_get_opt c ''statusSection'' = sec" by (rule js_get_Some)
    show ?thesis
      unfolding JObj historical_status_part_def js_get_persisted_userStats
      by (simp add: Some sec shouldInclude_False userStats_field_persists_def)
  qed
qed (simp_all add: persisted_userStats_def)

lemma skills_part_persisted:
  "historical_skills_part H False c (persisted_userStats c d) = historical_skills_part H False c d"
proof (cases d)
  case (JObj kvs)
  show ?thesis
  proof (cases "js_get c ''skillsSection''")
    case None
    then show ?thesis by (simp add: historical_skills_part_def)
  next
    case (Some sec)
    then have sec: "js_get_opt c ''skillsSection'' = sec" by (rule js_get_Some)
    show ?thesis
      unfolding JObj historical_skills_part_def js_get_persisted_userStats
      by (simp add: Some sec shouldInclude_False userStats_field_persists_def)
  qed
qed (simp_all add: persisted_userStats_def)

lemma inventory_part_persisted:
  "historical_inventory_part H False c (persisted_userStats c d)
     = historical_inventory_part H False c d"
proof (cases d)
  case (JObj kvs)
  show ?thesis
  proof (cases "js_get c ''inventoryPersistInHistory''")
    case None
    then show ?thesis by (simp add: historical_inventory_part_def)
  next
    case (Some flag)
    then have flag: "js_get_opt c ''inventoryPersistInHistory'' = flag" by (rule js_get_Some)
    show ?thesis
      unfolding JObj historical_inventory_part_def js_get_persisted_userStats
      by (simp add: Some flag userStats_field_persists_def)
  qed
qed (simp_all add: persisted_userStats_def)

lemma quests_part_persisted:
  "historical_quests_part H False c (persisted_userStats c d) = historical_quests_part H False c d"
proof (cases d)
  case (JObj kvs)
  show ?thesis
  proof (cases "js_get c ''questsPersistInHistory''")
    case None
    then show ?thesis by (simp add: historical_quests_part_def)
  next
    case (Some flag)
    then have flag: "js_get_opt c ''questsPersistInHistory'' = flag" by (rule js_get_Some)
    show ?thesis
      unfolding JObj historical_quests_part_def js_get_persisted_userStats
      by (simp add: Some flag userStats_field_persists_def)
  qed
qed (simp_all add: persisted_userStats_def)

text \<open>A payload parses to the value without the fields that do not persist.\<close>

lemma truthy_persisted_payload:
  assumes "\<And>d. erase d \<noteq> d \<Longrightarrow> truthy (erase d)"
  shows "truthy (persisted_payload H erase p) = truthy p"
  using assms by (auto simp: persisted_payload_def split: option.splits)

lemma parse_persisted_payload:
  assumes "\<And>d. erase d \<noteq> d \<Longrightarrow> typeof (erase d) = ''object''" and "truthy p"
  shows "parse_payload H (persisted_payload H erase p) = map_option erase (parse_payload H p)"
proof (cases "parse_payload H p")
  case None
  with assms(2) show ?thesis by (simp add: persisted_payload_def)
next
  case (Some d)
  show ?thesis
  proof (cases "erase d = d")
    case True
    with Some assms(2) show ?thesis by (simp add: persisted_payload_def)
  next
    case False
    then have "typeof (erase d) = ''object''" by (rule assms(1))
    then have "parse_payload H (erase d) = Some (erase d)" by (simp add: parse_payload_def)
    with Some False assms(2) show ?thesis by (simp add: persisted_payload_def)
  qed
qed

lemma persisted_payload_JUndef: "persisted_payload H erase JUndef = JUndef"
  by (simp add: persisted_payload_def)

lemma persisted_userStats_shape:
  "persisted_userStats c d \<noteq> d \<Longrightarrow>
     truthy (persisted_userStats c d) \<and> typeof (persisted_userStats c d) = ''object''"
  by (cases d) (simp_all add: persisted_userStats_def)

lemma persisted_infoBox_shape:
  "persisted_infoBox c d \<noteq> d \<Longrightarrow>
     truthy (persisted_infoBox c d) \<and> typeof (persisted_infoBox c d) = ''object''"
  by (cases d) (simp_all add: persisted_infoBox_def)

lemma persisted_characters_shape:
  "persisted_characters c d \<noteq> d \<Longrightarrow>
     truthy (persisted_characters c d) \<and> typeof (persisted_characters c d) = ''object''"
  by (cases d) (auto simp: persisted_characters_def split: jv.splits)

lemma js_get_persisted_fields:
  "js_get (persisted_fields H cfg (JObj kvs)) k = Some
     (if k = ''userStats''
      then persisted_payload H (persisted_userStats (js_get_opt cfg ''userStats'')) (lookup kvs k)
      else if k = ''infoBox''
      then persisted_payload H (persisted_infoBox (js_get_opt cfg ''infoBox'')) (lookup kvs k)
      else if k = ''characterThoughts''
      then persisted_payload H (persisted_characters (js_get_opt cfg ''presentCharacters''))
             (lookup kvs k)
      else lookup kvs k)"
  by (simp add: persisted_fields_def lookup_at_key persisted_payload_JUndef)

lemma userStats_persisted:
  "historical_userStats H (persisted_fields H cfg S) cfg u False = historical_userStats H S cfg u False"
proof (cases S)
  case (JObj kvs)
  let ?erase = "persisted_userStats (js_get_opt cfg ''userStats'')"
  let ?p = "lookup kvs ''userStats''"
  have t: "truthy (persisted_payload H ?erase ?p) = truthy ?p"
    by (rule truthy_persisted_payload) (simp add: persisted_userStats_shape)
  show ?thesis
  proof (cases "truthy ?p")
    case False
    with t show ?thesis
      unfolding JObj historical_userStats_def js_get_persisted_fields by simp
  next
    case True
    have parse: "parse_payload H (persisted_payload H ?erase ?p) = map_option ?erase (parse_payload H ?p)"
      using _ True by (rule parse_persisted_payload) (simp add: persisted_userStats_shape)
    show ?thesis
    proof (cases "js_get cfg ''userStats''")
      case None
      with t True show ?thesis
        unfolding JObj historical_userStats_def js_get_persisted_fields by simp
    next
      case (Some c)
      then have c: "js_get_opt cfg ''userStats'' = c" by (rule js_get_Some)
      show ?thesis
      proof (cases "parse_payload H ?p")
        case None
        with t True Some parse show ?thesis
          unfolding JObj historical_userStats_def js_get_persisted_fields by simp
      next
        case d: (Some d)
        with t True Some parse show ?thesis
          unfolding JObj historical_userStats_def js_get_persisted_fields
          by (simp add: c stats_part_persisted status_part_persisted skills_part_persisted
              inventory_part_persisted quests_part_persisted)
      qed
    qed
  qed
qed (simp_all add: persisted_fields_def)

text \<open>The scene information reads the widgets that persist only.\<close>

lemma widget_persisted:
  assumes "key \<in> set widget_keys"
  shows "historical_widget H False (js_get_opt c ''widgets'') (persisted_infoBox c d) key label
       = historical_widget H False (js_get_opt c ''widgets'') d key label"
proof (cases d)
  case (JObj kvs)
  show ?thesis
  proof (cases "js_get (js_get_opt c ''widgets'') key")
    case None
    then show ?thesis by (simp add: historical_widget_def)
  next
    case (Some w)
    then have w: "js_get_opt (js_get_opt c ''widgets'') key = w" by (rule js_get_Some)
    show ?thesis
      unfolding JObj historical_widget_def
      using assms by (simp add: Some w shouldInclude_False persisted_infoBox_def lookup_keep_keys)
  qed
qed (simp_all add: persisted_infoBox_def)

lemma infoBox_persisted:
  "historical_infoBox H (persisted_fields H cfg S) cfg False = historical_infoBox H S cfg False"
proof (cases S)
  case (JObj kvs)
  let ?erase = "persisted_infoBox (js_get_opt cfg ''infoBox'')"
  let ?p = "lookup kvs ''infoBox''"
  have t: "truthy (persisted_payload H ?erase ?p) = truthy ?p"
    by (rule truthy_persisted_payload) (simp add: persisted_infoBox_shape)
  show ?thesis
  proof (cases "truthy ?p")
    case False
    with t show ?thesis
      unfolding JObj historical_infoBox_def js_get_persisted_fields by simp
  next
    case True
    have parse: "parse_payload H (persisted_payload H ?erase ?p) = map_option ?erase (parse_payload H ?p)"
      using _ True by (rule parse_persisted_payload) (simp add: persisted_infoBox_shape)
    show ?thesis
    proof (cases "js_get cfg ''infoBox''")
      case None
      with t True show ?thesis
        unfolding JObj historical_infoBox_def js_get_persisted_fields by simp
    next
      case (Some c)
      then have c: "js_get_opt cfg ''infoBox'' = c" by (rule js_get_Some)
      show ?thesis
      proof (cases "parse_payload H ?p")
        case None
        with t True Some parse show ?thesis
          unfolding JObj historical_infoBox_def js_get_persisted_fields by simp
      next
        case d: (Some d)
        show ?thesis
        proof (cases "js_get c ''widgets''")
          case None
          with t True Some parse d show ?thesis
            unfolding JObj historical_infoBox_def js_get_persisted_fields by (simp add: c)
        next
          case w: (Some w)
          then have w': "w = js_get_opt c ''widgets''" by (simp add: js_get_opt_def)
          from t True Some parse d w show ?thesis
            unfolding JObj historical_infoBox_def js_get_persisted_fields
            by (simp add: c w' widget_persisted widget_keys_def)
        qed
      qed
    qed
  qed
qed (simp_all add: persisted_fields_def)

text \<open>A character is read through the details and the thoughts that persist only.\<close>

lemma truthy_persisted_details: "truthy (persisted_details c d) = truthy d"
  by (cases d) (simp_all add: persisted_details_def)

lemma typeof_persisted_details: "typeof (persisted_details c d) = typeof d"
  by (cases d) (simp_all add: persisted_details_def)

lemma js_get_persisted_details:
  "k \<in> set (persisted_detail_keys c) \<Longrightarrow> js_get (persisted_details c d) k = js_get d k"
  by (cases d) (simp_all add: persisted_details_def lookup_keep_keys)

lemma detail_key_persisted:
  assumes "iterate (js_get_opt c ''customFields'') = Some fs" and "field \<in> set fs"
    and "persists field" and "String (js_get_opt field ''id'') = Some k"
  shows "k \<in> set (persisted_detail_keys c)"
  using assms by (auto simp: persisted_detail_keys_def intro!: bexI [of _ field])

lemma js_get_persisted_character:
  "js_get (persisted_character c (JObj kvs)) k =
     Some (if k = ''details'' then persisted_details c (lookup kvs ''details'')
           else if k = ''name'' \<or> k = ''thoughts'' \<and> persists (js_get_opt c ''thoughts'')
           then lookup kvs k else JUndef)"
  by (simp add: persisted_character_def lookup_at_key lookup_keep_keys persisted_details_def)

lemma detail_persisted:
  assumes "iterate (js_get_opt c ''customFields'') = Some fs" and "field \<in> set fs"
  shows "(if shouldIncludeStat False field
          then do { ident \<leftarrow> js_get field ''id''; key \<leftarrow> String ident;
                    js_get (persisted_details c details) key }
          else Some JUndef)
       = (if shouldIncludeStat False field
          then do { ident \<leftarrow> js_get field ''id''; key \<leftarrow> String ident; js_get details key }
          else Some JUndef)"
proof (cases "persists field")
  case False
  then show ?thesis by (simp add: shouldIncludeStat_False)
next
  case True
  then have ident: "js_get field ''id'' = Some (js_get_opt field ''id'')"
    by (rule persists_js_get)
  show ?thesis
  proof (cases "String (js_get_opt field ''id'')")
    case None
    then show ?thesis by (simp add: ident)
  next
    case (Some k)
    with assms True have "k \<in> set (persisted_detail_keys c)"
      by (intro detail_key_persisted)
    then show ?thesis by (simp add: ident Some js_get_persisted_details)
  qed
qed

lemma details_loop_persisted:
  "do { configured \<leftarrow> js_get c ''customFields'';
        customFields \<leftarrow> iterate configured;
        for_of customFields [] (\<lambda>charFormatted field. do {
             detail \<leftarrow> (if shouldIncludeStat False field then do {
                 ident \<leftarrow> js_get field ''id''; key \<leftarrow> String ident;
                 js_get (persisted_details c details) key }
               else Some JUndef);
             if shouldIncludeStat False field \<and> truthy detail then do {
               v \<leftarrow> getValue_historical H detail;
               if v \<noteq> [] then do {
                 name \<leftarrow> js_get field ''name'';
                 label \<leftarrow> String name;
                 Some (charFormatted @ label @ '': '' @ v @ '', '') }
               else Some charFormatted }
             else Some charFormatted }) }
   = do { configured \<leftarrow> js_get c ''customFields'';
        customFields \<leftarrow> iterate configured;
        for_of customFields [] (\<lambda>charFormatted field. do {
             detail \<leftarrow> (if shouldIncludeStat False field then do {
                 ident \<leftarrow> js_get field ''id''; key \<leftarrow> String ident; js_get details key }
               else Some JUndef);
             if shouldIncludeStat False field \<and> truthy detail then do {
               v \<leftarrow> getValue_historical H detail;
               if v \<noteq> [] then do {
                 name \<leftarrow> js_get field ''name'';
                 label \<leftarrow> String name;
                 Some (charFormatted @ label @ '': '' @ v @ '', '') }
               else Some charFormatted }
             else Some charFormatted }) }"
proof (cases "js_get c ''customFields''")
  case None
  then show ?thesis by simp
next
  case (Some cf)
  then have cf: "js_get_opt c ''customFields'' = cf" by (rule js_get_Some)
  show ?thesis
  proof (cases "iterate cf")
    case None
    with Some show ?thesis by simp
  next
    case fs: (Some fs)
    with cf have it: "iterate (js_get_opt c ''customFields'') = Some fs" by simp
    have "for_of fs [] (\<lambda>charFormatted field. do {
             detail \<leftarrow> (if shouldIncludeStat False field then do {
                 ident \<leftarrow> js_get field ''id''; key \<leftarrow> String ident;
                 js_get (persisted_details c details) key }
               else Some JUndef);
             if shouldIncludeStat False field \<and> truthy detail then do {
               v \<leftarrow> getValue_historical H detail;
               if v \<noteq> [] then do {
                 name \<leftarrow> js_get field ''name'';
                 label \<leftarrow> String name;
                 Some (charFormatted @ label @ '': '' @ v @ '', '') }
               else Some charFormatted }
             else Some charFormatted })
      = for_of fs [] (\<lambda>charFormatted field. do {
             detail \<leftarrow> (if shouldIncludeStat False field then do {
                 ident \<leftarrow> js_get field ''id''; key \<leftarrow> String ident; js_get details key }
               else Some JUndef);
             if shouldIncludeStat False field \<and> truthy detail then do {
               v \<leftarrow> getValue_historical H detail;
               if v \<noteq> [] then do {
                 name \<leftarrow> js_get field ''name'';
                 label \<leftarrow> String name;
                 Some (charFormatted @ label @ '': '' @ v @ '', '') }
               else Some charFormatted }
             else Some charFormatted })"
    proof (rule for_of_cong [OF refl refl])
      fix a field assume "field \<in> set fs"
      with it show "do {
             detail \<leftarrow> (if shouldIncludeStat False field then do {
                 ident \<leftarrow> js_get field ''id''; key \<leftarrow> String ident;
                 js_get (persisted_details c details) key }
               else Some JUndef);
             if shouldIncludeStat False field \<and> truthy detail then do {
               v \<leftarrow> getValue_historical H detail;
               if v \<noteq> [] then do {
                 name \<leftarrow> js_get field ''name'';
                 label \<leftarrow> String name;
                 Some (a @ label @ '': '' @ v @ '', '') }
               else Some a }
             else Some a }
        = do {
             detail \<leftarrow> (if shouldIncludeStat False field then do {
                 ident \<leftarrow> js_get field ''id''; key \<leftarrow> String ident; js_get details key }
               else Some JUndef);
             if shouldIncludeStat False field \<and> truthy detail then do {
               v \<leftarrow> getValue_historical H detail;
               if v \<noteq> [] then do {
                 name \<leftarrow> js_get field ''name'';
                 label \<leftarrow> String name;
                 Some (a @ label @ '': '' @ v @ '', '') }
               else Some a }
             else Some a }"
        by (simp only: detail_persisted)
    qed
    with Some fs show ?thesis by simp
  qed
qed

lemma character_persisted:
  "historical_character H False c (persisted_character c ch) = historical_character H False c ch"
proof (cases ch)
  case (JObj kvs)
  show ?thesis
  proof (cases "js_get c ''thoughts''")
    case None
    then show ?thesis
      unfolding JObj historical_character_def js_get_persisted_character
      by (simp add: persisted_character_def truthy_persisted_details typeof_persisted_details
          details_loop_persisted)
  next
    case (Some tc)
    then have tc: "js_get_opt c ''thoughts'' = tc" by (rule js_get_Some)
    show ?thesis
      unfolding JObj historical_character_def js_get_persisted_character
      by (simp add: persisted_character_def truthy_persisted_details typeof_persisted_details
          details_loop_persisted Some tc shouldInclude_False)
  qed
qed (simp_all add: persisted_character_def)

lemma mapM_map: "mapM f (map g xs) = mapM (\<lambda>x. f (g x)) xs"
  by (induction xs) simp_all

lemma characters_loop_persisted:
  "do { wrapped \<leftarrow> (if isArray (persisted_characters c d) then Some JUndef
                     else js_get (persisted_characters c d) ''characters'');
        characters \<leftarrow> iterate (if isArray (persisted_characters c d) then persisted_characters c d
                                else js_or wrapped (JArr []));
        blocks \<leftarrow> mapM (historical_character H False c) characters;
        Some (concat blocks) }
   = do { wrapped \<leftarrow> (if isArray d then Some JUndef else js_get d ''characters'');
        characters \<leftarrow> iterate (if isArray d then d else js_or wrapped (JArr []));
        blocks \<leftarrow> mapM (historical_character H False c) characters;
        Some (concat blocks) }"
proof (cases d)
  case (JArr chars)
  then show ?thesis
    by (simp add: persisted_characters_def iterate_def mapM_map character_persisted)
next
  case (JObj kvs)
  show ?thesis
  proof (cases "lookup kvs ''characters''")
    case (JArr chars)
    with JObj show ?thesis
      by (simp add: persisted_characters_def iterate_def js_or_def mapM_map character_persisted
          lookup_def)
  qed (simp_all add: JObj persisted_characters_def)
qed (simp_all add: persisted_characters_def)

lemma characters_persisted:
  "historical_characters H (persisted_fields H cfg S) cfg False = historical_characters H S cfg False"
proof (cases S)
  case (JObj kvs)
  let ?erase = "persisted_characters (js_get_opt cfg ''presentCharacters'')"
  let ?p = "lookup kvs ''characterThoughts''"
  have t: "truthy (persisted_payload H ?erase ?p) = truthy ?p"
    by (rule truthy_persisted_payload) (simp add: persisted_characters_shape)
  show ?thesis
  proof (cases "truthy ?p")
    case False
    with t show ?thesis
      unfolding JObj historical_characters_def js_get_persisted_fields by simp
  next
    case True
    have parse: "parse_payload H (persisted_payload H ?erase ?p) = map_option ?erase (parse_payload H ?p)"
      using _ True by (rule parse_persisted_payload) (simp add: persisted_characters_shape)
    show ?thesis
    proof (cases "js_get cfg ''presentCharacters''")
      case None
      with t True show ?thesis
        unfolding JObj historical_characters_def js_get_persisted_fields by simp
    next
      case (Some c)
      then have c: "js_get_opt cfg ''presentCharacters'' = c" by (rule js_get_Some)
      show ?thesis
      proof (cases "parse_payload H ?p")
        case None
        with t True Some parse show ?thesis
          unfolding JObj historical_characters_def js_get_persisted_fields by simp
      next
        case d: (Some d)
        with t True Some parse show ?thesis
          unfolding JObj historical_characters_def js_get_persisted_fields
          by (simp add: c characters_loop_persisted)
      qed
    qed
  qed
qed (simp_all add: persisted_fields_def)

lemma truthy_persisted_fields: "truthy (persisted_fields H cfg S) = truthy S"
  by (cases S) (simp_all add: persisted_fields_def)

lemma historical_text_of_persisted_fields:
  "formatHistoricalTrackerData H (persisted_fields H cfg S) cfg u False
     = formatHistoricalTrackerData H S cfg u False"
  by (simp add: formatHistoricalTrackerData_def formatHistoricalTrackerData_body_def
      truthy_persisted_fields userStats_persisted infoBox_persisted characters_persisted)

lemma persisted_fields_example:
  "persisted_fields example_host example_config persisted_snapshot = JObj
     [(''userStats'', JObj [(''stats'',
         JArr [JObj [(''id'', JStr ''hp''), (''name'', JStr ''HP''), (''value'', JNum 7)]])]),
      (''infoBox'', JObj [(''location'', JStr ''Forest'')])]"
  by (simp add: persisted_fields_def persisted_snapshot_def example_config_def at_key_def
      keep_keys_def persisted_payload_def parse_payload_def persisted_userStats_def
      persisted_infoBox_def persisted_stats_def stat_persists_def stat_config_def
      userStats_field_persists_def widget_keys_def persists_def js_get_opt_def lookup_def
      array_find_def)

section \<open>Properties of the prompt builder\<close>

text \<open>
  C1. A payload that fails to parse in one category should not cost the other categories
  their text. The summary path keeps this: \<^verbatim>\<open>formatTrackerDataForContext\<close> catches the
  error of its own category (lemma \<open>summary_isolates_parse_failure\<close>). The historical
  path does not: the three categories of \<^verbatim>\<open>formatHistoricalTrackerData\<close> share one
  \<^verbatim>\<open>try\<close> block. With a well-formed player-stats payload and a scene payload in the old
  text format the historical formatter returns the empty string, although without the
  scene payload it returns the line of the stats; the summary of the same data keeps the
  stats and equals the summary without the scene payload.
\<close>

theorem historical_parse_failure_discards_siblings:
  "JSON_parse example_host legacy_text = None
   \<and> formatHistoricalTrackerData example_host
        (JObj [(''userStats'', JStr hp_text), (''infoBox'', JStr legacy_text)])
        example_config ''Bob'' False = []
   \<and> formatHistoricalTrackerData example_host
        (JObj [(''userStats'', JStr hp_text)])
        example_config ''Bob'' False = ''Bob: HP: 7''
   \<and> generateContextualSummary example_host example_settings
        \<lparr>userStats = JStr hp_text, infoBox = JStr legacy_text, characterThoughts = JUndef\<rparr> ''Bob''
       = Some (''Bob'' @ [CHR 0x27] @ ''s Stats:'' @ NL @ ''HP: 7/10'')
   \<and> generateContextualSummary example_host example_settings
        \<lparr>userStats = JStr hp_text, infoBox = JUndef, characterThoughts = JUndef\<rparr> ''Bob''
       = Some (''Bob'' @ [CHR 0x27] @ ''s Stats:'' @ NL @ ''HP: 7/10'')"
proof -
  have "JSON_parse example_host legacy_text = None"
    by (simp add: example_defs)
  moreover have "formatHistoricalTrackerData example_host
        (JObj [(''userStats'', JStr hp_text), (''infoBox'', JStr legacy_text)])
        example_config ''Bob'' False = []"
    by (simp add: historical_eval example_defs)
  moreover have "formatHistoricalTrackerData example_host
        (JObj [(''userStats'', JStr hp_text)])
        example_config ''Bob'' False = ''Bob: HP: 7''"
    by (simp add: historical_eval example_defs)
  moreover have "generateContextualSummary example_host example_settings
        \<lparr>userStats = JStr hp_text, infoBox = JStr legacy_text, characterThoughts = JUndef\<rparr> ''Bob''
       = Some (''Bob'' @ [CHR 0x27] @ ''s Stats:'' @ NL @ ''HP: 7/10'')"
    by (simp add: generateContextualSummary_def summary_category_def example_settings_def
        context_eval example_defs trim_def is_space_def strict_eq_JBool)
  moreover have "generateContextualSummary example_host example_settings
        \<lparr>userStats = JStr hp_text, infoBox = JUndef, characterThoughts = JUndef\<rparr> ''Bob''
       = Some (''Bob'' @ [CHR 0x27] @ ''s Stats:'' @ NL @ ''HP: 7/10'')"
    by (simp add: generateContextualSummary_def summary_category_def example_settings_def
        context_eval example_defs trim_def is_space_def strict_eq_JBool)
  ultimately show ?thesis by blast
qed

text \<open>
  Witness for C1: the scene payload that does not parse changes the historical text of
  the player stats, which it should have left alone.
\<close>

theorem historical_parse_failure_discards_siblings_witness:
  "formatHistoricalTrackerData example_host
        (JObj [(''userStats'', JStr hp_text), (''infoBox'', JStr legacy_text)])
        example_config ''Bob'' False
   \<noteq> formatHistoricalTrackerData example_host
        (JObj [(''userStats'', JStr hp_text)])
        example_config ''Bob'' False"
  using historical_parse_failure_discards_siblings by simp

text \<open>
  C2. For every field value \<open>v\<close> and every boolean \<open>b\<close>, both resolvers give the locked
  wrapper \<^verbatim>\<open>{value: v, locked: b}\<close> exactly the result they give \<open>v\<close>: the flag never
  changes the resolved string, also when \<open>v\<close> is itself a locked wrapper.
\<close>

theorem locked_flag_never_affects_resolution:
  "getValue H (locked_wrapper v b) = getValue H v
   \<and> getValue H (locked_wrapper v True) = getValue H (locked_wrapper v False)
   \<and> getValue H (locked_wrapper (locked_wrapper v b') b) = getValue H v
   \<and> getValue_historical H (locked_wrapper v b) = getValue_historical H v
   \<and> getValue_historical H (locked_wrapper v True) = getValue_historical H (locked_wrapper v False)
   \<and> getValue_historical H (locked_wrapper (locked_wrapper v b') b) = getValue_historical H v"
  by (simp add: getValue_locked_wrapper getValue_historical_locked_wrapper)

text \<open>
  C3, as amended. For every category name and user name, the context formatter returns
  the empty string on \<^verbatim>\<open>null\<close>, \<^verbatim>\<open>undefined\<close> and the empty string, and on a
  snapshot that does not parse. On a payload with no fields (the object \<^verbatim>\<open>{}\<close>, or a
  JSON text that parses to it) it returns the header line of the category alone, the
  user's name and \<^verbatim>\<open>'s Stats:\<close> for the player stats and \<^verbatim>\<open>Info Box:\<close> for the scene
  information, and the empty string for every other category name.
\<close>

theorem format_empty_or_unparseable_snapshot:
  "formatTrackerDataForContext H cfg JNull cat u = []
   \<and> formatTrackerDataForContext H cfg JUndef cat u = []
   \<and> formatTrackerDataForContext H cfg (JStr []) cat u = []
   \<and> (JSON_parse H s = None \<longrightarrow> formatTrackerDataForContext H cfg (JStr s) cat u = [])
   \<and> formatTrackerDataForContext H cfg (JObj []) ''userStats'' u = u @ [CHR 0x27] @ ''s Stats:'' @ NL
   \<and> formatTrackerDataForContext H cfg (JObj []) ''infoBox'' u = ''Info Box:'' @ NL
   \<and> (cat \<noteq> ''userStats'' \<and> cat \<noteq> ''infoBox'' \<longrightarrow>
        formatTrackerDataForContext H cfg (JObj []) cat u = [])
   \<and> (t \<noteq> [] \<and> JSON_parse H t = Some (JObj []) \<longrightarrow>
        formatTrackerDataForContext H cfg (JStr t) cat u
          = formatTrackerDataForContext H cfg (JObj []) cat u)"
  by (simp add: format_falsy format_unparseable format_empty_userStats format_empty_infoBox
      format_empty_other format_parsed)

text \<open>Witness for C3: a text in the old format, the JSON text \<^verbatim>\<open>{}\<close> and \<^verbatim>\<open>null\<close>
  for the character roster.\<close>

theorem format_empty_or_unparseable_snapshot_witness:
  "JSON_parse example_host legacy_text = None
   \<and> formatTrackerDataForContext example_host example_config (JStr legacy_text) ''characters'' ''Bob'' = []
   \<and> JSON_parse example_host ''{}'' = Some (JObj [])
   \<and> formatTrackerDataForContext example_host example_config (JStr ''{}'') ''characters'' ''Bob'' = []
   \<and> formatTrackerDataForContext example_host example_config JNull ''characters'' ''Bob'' = []"
  using format_empty_or_unparseable_snapshot
    [of example_host example_config "''characters''" "''Bob''" legacy_text "''{}''"]
  by (simp add: example_defs)

text \<open>
  Counterexample to C3 as stated: on the JSON text \<^verbatim>\<open>{}\<close> for the player stats, and on
  the empty object for the scene information, the result is the header line, not the
  empty string.
\<close>

theorem format_empty_object_counterexample:
  "formatTrackerDataForContext example_host example_config (JStr ''{}'') ''userStats'' ''Bob''
     = ''Bob'' @ [CHR 0x27] @ ''s Stats:'' @ NL
   \<and> formatTrackerDataForContext example_host example_config (JStr ''{}'') ''userStats'' ''Bob'' \<noteq> []
   \<and> formatTrackerDataForContext example_host example_config (JObj []) ''infoBox'' ''Bob''
     = ''Info Box:'' @ NL
   \<and> formatTrackerDataForContext example_host example_config (JObj []) ''infoBox'' ''Bob'' \<noteq> []"
proof -
  have "JSON_parse example_host ''{}'' = Some (JObj [])"
    by (simp add: example_defs)
  then have "formatTrackerDataForContext example_host example_config (JStr ''{}'') ''userStats'' ''Bob''
     = formatTrackerDataForContext example_host example_config (JObj []) ''userStats'' ''Bob''"
    by (rule format_parsed) simp_all
  then show ?thesis
    by (simp add: format_empty_userStats format_empty_infoBox NL_def)
qed

text \<open>
  C4, as amended. For every configuration entry \<open>c\<close> and every value of
  \<open>includeAllEnabled\<close>, both filters of the historical formatter are the specified one:
  with \<open>includeAllEnabled\<close> the field is included exactly when the \<^verbatim>\<open>enabled\<close> flag of
  \<open>c\<close> is not \<^verbatim>\<open>false\<close>, and without it exactly when the \<^verbatim>\<open>persistInHistory\<close> flag
  of \<open>c\<close> is \<^verbatim>\<open>true\<close>. A field with no configuration entry is therefore left out
  without \<open>includeAllEnabled\<close> and included with it.
\<close>

theorem field_filter_as_specified:
  "shouldInclude includeAllEnabled c = spec_included includeAllEnabled c
   \<and> shouldIncludeStat includeAllEnabled c = spec_included includeAllEnabled c
   \<and> shouldInclude True c = (js_get_opt c ''enabled'' \<noteq> JBool False)
   \<and> shouldInclude False c = (js_get_opt c ''persistInHistory'' = JBool True)
   \<and> shouldInclude includeAllEnabled JUndef = includeAllEnabled
   \<and> shouldIncludeStat includeAllEnabled JUndef = includeAllEnabled"
  by (simp add: shouldInclude_def shouldIncludeStat_def spec_included_def strict_eq_JBool
      js_get_opt_def)

text \<open>
  Counterexample to C4 as stated: with \<open>includeAllEnabled\<close>, a field with no
  configuration entry is included; the time of the scene, which has no entry in the
  example configuration, appears in the historical text.
\<close>

theorem filter_without_entry_counterexample:
  "shouldInclude True JUndef \<and> shouldIncludeStat True JUndef
   \<and> formatHistoricalTrackerData example_host
        (JObj [(''infoBox'', JObj [(''time'', JStr ''Noon'')])]) example_config ''Bob'' True
       = ''Time: Noon''"
  by (simp add: historical_eval example_defs)

text \<open>
  C5. Whatever the window, the persistence settings and the anchor, the injection map
  that the loop builds has no entry keyed by the index of the last assistant message of
  the window: with the anchor at the assistant message that index is skipped, and with
  the anchor at the user message only user messages are targets. (When the window has no
  assistant message the index is \<open>-1\<close>, which is no key either.) The loop builds a
  map whenever the preamble and the swipe ids of the window can be printed; otherwise it
  may throw, and there is no map.
\<close>

theorem injection_map_never_targets_last_assistant:
  "(contextInjectionMap H hp cfg u ms = Some m \<longrightarrow> lastAssistantIdx ms \<notin> int ` fst ` set m)
   \<and> (String (js_or (js_get_opt hp ''contextPreamble'') (JStr ''Context for that moment:'')) \<noteq> None
        \<and> (\<forall>msg \<in> set ms. String (js_or (swipe_id msg) (JNum 0)) \<noteq> None)
      \<longrightarrow> (\<exists>m'. contextInjectionMap H hp cfg u ms = Some m'))"
proof (intro conjI impI)
  assume built: "contextInjectionMap H hp cfg u ms = Some m"
  show "lastAssistantIdx ms \<notin> int ` fst ` set m"
  proof
    assume "lastAssistantIdx ms \<in> int ` fst ` set m"
    then obtain k where k: "k \<in> fst ` set m" and eq: "lastAssistantIdx ms = int k" by blast
    have no_key: "int k' \<noteq> lastAssistantIdx ms" if "k' \<in> fst ` set []" for k' :: nat
      using that by simp
    have "int k \<noteq> lastAssistantIdx ms"
    proof (cases "truthy (js_get_opt hp ''enabled'')")
      case True
      with built have
        "for_of [0..<length ms] [] (\<lambda>m i. injection_step H hp cfg u ms i m) = Some m"
        by (simp add: contextInjectionMap_def)
      with no_key show ?thesis using k by (rule for_of_injection_step_keys)
    next
      case False
      with built have "m = []" by (simp add: contextInjectionMap_def)
      with k show ?thesis by simp
    qed
    with eq show False by simp
  qed
next
  assume "String (js_or (js_get_opt hp ''contextPreamble'') (JStr ''Context for that moment:'')) \<noteq> None
        \<and> (\<forall>msg \<in> set ms. String (js_or (swipe_id msg) (JNum 0)) \<noteq> None)"
  then show "\<exists>m'. contextInjectionMap H hp cfg u ms = Some m'"
    by (intro contextInjectionMap_returns) simp_all
qed

text \<open>
  Witness for C5: in the window of four messages whose first model message has the
  example snapshot, the map is built with one entry, at index 1, and the last assistant
  message has index 3.
\<close>

theorem injection_map_never_targets_last_assistant_witness:
  "contextInjectionMap example_host assistant_end_settings example_config ''Bob''
     [user_message ''Hello'', model_message ''Hi'' persisted_snapshot,
      user_message ''Go on'', model_message ''Done'' JUndef]
     = Some [(1, NL @ ''Context for that moment:'' @ NL @ ''Bob: HP: 7'' @ NL @ ''Location: Forest'')]
   \<and> lastAssistantIdx [user_message ''Hello'', model_message ''Hi'' persisted_snapshot,
      user_message ''Go on'', model_message ''Done'' JUndef] = 3
   \<and> lastAssistantIdx [user_message ''Hello'', model_message ''Hi'' persisted_snapshot,
      user_message ''Go on'', model_message ''Done'' JUndef]
     \<notin> int ` fst ` set [(1, NL @ ''Context for that moment:'' @ NL @ ''Bob: HP: 7'' @ NL
                               @ ''Location: Forest'')]"
proof -
  let ?ms = "[user_message ''Hello'', model_message ''Hi'' persisted_snapshot,
      user_message ''Go on'', model_message ''Done'' JUndef]"
  let ?m = "[(1::nat, NL @ ''Context for that moment:'' @ NL @ ''Bob: HP: 7'' @ NL @ ''Location: Forest'')]"
  have S: "truthy persisted_snapshot"
    by (simp add: persisted_snapshot_def)
  have built: "contextInjectionMap example_host assistant_end_settings example_config ''Bob'' ?ms
     = Some ?m"
    by (subst window_map [where S = persisted_snapshot])
      (simp_all add: example_roles trackerData_model_message S persisted_snapshot_text NL_def)
  have last: "lastAssistantIdx ?ms = 3"
    by (simp add: lastAssistantIdx_def example_roles)
  have "lastAssistantIdx ?ms \<notin> int ` fst ` set ?m"
    using injection_map_never_targets_last_assistant
      [of example_host assistant_end_settings example_config "''Bob''" ?ms ?m] built
    by blast
  with built last show ?thesis by (intro conjI)
qed

text \<open>
  C6, as amended. In a window of four messages, user and model in turn, with the anchor
  at the end of the assistant message and only the persisted fields sent: when the first
  model message has no snapshot the map is empty, whatever snapshot the last model
  message has, for the last model message is left out of the mapping; when the first
  model message has a snapshot \<open>S\<close> whose historical text is not empty, the map has
  exactly one entry, keyed at the index of that message, and its text is the preamble
  line followed by the historical text of the persisted fields of \<open>S\<close>. The historical
  text of \<open>S\<close> is the one of its persisted fields alone: taking away from \<open>S\<close> every
  stat, section, widget, character detail and thought that does not persist leaves the
  text as it is, so the text contains the persisted fields only.
\<close>

theorem four_turn_window_map:
  assumes "truthy (is_user u0)" and "is_assistant a1" and "truthy (is_user u2)" and "is_assistant a3"
    and "message_trackerData a1 = Some S"
  shows "(\<not> truthy S \<longrightarrow>
            contextInjectionMap H assistant_end_settings cfg u [u0, a1, u2, a3] = Some [])
       \<and> (truthy S \<and> formatHistoricalTrackerData H S cfg u False \<noteq> [] \<longrightarrow>
            contextInjectionMap H assistant_end_settings cfg u [u0, a1, u2, a3] =
              Some [(1, NL @ ''Context for that moment:'' @ NL
                        @ formatHistoricalTrackerData H (persisted_fields H cfg S) cfg u False)])
       \<and> formatHistoricalTrackerData H S cfg u False
           = formatHistoricalTrackerData H (persisted_fields H cfg S) cfg u False"
  using window_map [OF assms, of H cfg u]
  by (simp add: Let_def historical_text_of_persisted_fields)

text \<open>
  Witness for C6: the snapshot on the last model message gives the empty map; on the
  first model message it gives one entry at index 1 with the persisted stat and the
  persisted location, and neither the other stat nor the date: the text of the snapshot
  is the text of the snapshot that has the persisted stat and the location only.
\<close>

theorem four_turn_window_map_witness:
  "contextInjectionMap example_host assistant_end_settings example_config ''Bob''
     [user_message ''Hello'', model_message ''Hi'' JUndef,
      user_message ''Go on'', model_message ''Done'' persisted_snapshot] = Some []
   \<and> contextInjectionMap example_host assistant_end_settings example_config ''Bob''
     [user_message ''Hello'', model_message ''Hi'' persisted_snapshot,
      user_message ''Go on'', model_message ''Done'' JUndef]
     = Some [(1, NL @ ''Context for that moment:'' @ NL @ ''Bob: HP: 7'' @ NL @ ''Location: Forest'')]
   \<and> formatHistoricalTrackerData example_host persisted_snapshot example_config ''Bob'' False
     = formatHistoricalTrackerData example_host
         (JObj [(''userStats'', JObj [(''stats'',
                   JArr [JObj [(''id'', JStr ''hp''), (''name'', JStr ''HP''), (''value'', JNum 7)]])]),
                (''infoBox'', JObj [(''location'', JStr ''Forest'')])])
         example_config ''Bob'' False"
proof -
  have S: "truthy persisted_snapshot"
    by (simp add: persisted_snapshot_def)
  note first = four_turn_window_map [of "user_message ''Hello''" "model_message ''Hi'' JUndef"
      "user_message ''Go on''" "model_message ''Done'' persisted_snapshot" JUndef
      example_host example_config "''Bob''"]
  note second = four_turn_window_map [of "user_message ''Hello''"
      "model_message ''Hi'' persisted_snapshot"
      "user_message ''Go on''" "model_message ''Done'' JUndef" persisted_snapshot
      example_host example_config "''Bob''"]
  from first second show ?thesis
    by (simp add: example_roles trackerData_model_message S persisted_snapshot_text NL_def
        persisted_fields_example)
qed

text \<open>
  Counterexample to C6 as stated: for the window of the claim the map is empty, although
  the snapshot of the last model message has persisted fields.
\<close>

theorem last_turn_snapshot_counterexample:
  "contextInjectionMap example_host assistant_end_settings example_config ''Bob''
     [user_message ''Hello'', model_message ''Hi'' JUndef,
      user_message ''Go on'', model_message ''Done'' persisted_snapshot] = Some []
   \<and> formatHistoricalTrackerData example_host persisted_snapshot example_config ''Bob'' False
       = ''Bob: HP: 7'' @ NL @ ''Location: Forest''"
proof -
  have "contextInjectionMap example_host assistant_end_settings example_config ''Bob''
     [user_message ''Hello'', model_message ''Hi'' JUndef,
      user_message ''Go on'', model_message ''Done'' persisted_snapshot] = Some []"
    by (subst window_map [where S = JUndef]) (simp_all add: example_roles trackerData_model_message)
  then show ?thesis by (simp add: persisted_snapshot_text)
qed

text \<open>
  C7, as amended. For the scene snapshot with the location \<^verbatim>\<open>Forest Clearing\<close> and the
  weather record of the sun emoji and the forecast \<^verbatim>\<open>Clear\<close>, the context formatter
  returns the header line \<^verbatim>\<open>Info Box:\<close>, then the line of the location and the line of
  the weather, each ended by a line break; the weather record resolves to the emoji, a
  space and the forecast.
\<close>

theorem scene_info_output:
  "formatTrackerDataForContext H cfg scene_snapshot ''infoBox'' u
     = ''Info Box:'' @ NL @ ''Location: Forest Clearing'' @ NL
       @ ''Weather: '' @ sun_emoji @ '' Clear'' @ NL
   \<and> getValue H (JObj [(''emoji'', JStr sun_emoji), (''forecast'', JStr ''Clear'')])
     = Some (sun_emoji @ '' Clear'')"
  by (simp add: format_scene_snapshot getValue_eqs lookup_def)

text \<open>
  Counterexample to C7 as stated: the output is not the two lines alone.
\<close>

theorem scene_info_output_counterexample:
  "formatTrackerDataForContext example_host example_config scene_snapshot ''infoBox'' ''Bob''
     \<noteq> ''Location: Forest Clearing'' @ NL @ ''Weather: '' @ sun_emoji @ '' Clear''"
  by (simp add: format_scene_snapshot NL_def)

text \<open>
  C8. For the player-stats snapshot with the one stat \<open>hp\<close>, named \<^verbatim>\<open>HP\<close>, of value 7,
  under a configuration whose custom stats give \<open>hp\<close> the maximum 10 and whose display
  mode is \<^verbatim>\<open>number\<close>, the output of the context formatter has the line \<^verbatim>\<open>HP: 7/10\<close>.
\<close>

theorem stat_line_with_configured_maximum:
  "formatTrackerDataForContext H number_mode_config hp_snapshot ''userStats'' u
     = u @ [CHR 0x27] @ ''s Stats:'' @ NL @ ''HP: 7/10'' @ NL
   \<and> ''HP: 7/10'' \<in> set (lines_of
         (formatTrackerDataForContext H number_mode_config hp_snapshot ''userStats'' u))"
proof -
  have "formatTrackerDataForContext H number_mode_config hp_snapshot ''userStats'' u
      = (u @ [CHR 0x27] @ ''s Stats:'') @ CHR 0x0A # (''HP: 7/10'' @ NL)"
    (is "_ = ?a @ _ # ?b")
    by (simp add: format_hp_snapshot NL_def)
  moreover have "''HP: 7/10'' \<in> set (lines_of ?b)"
    by (simp add: NL_def)
  ultimately have "''HP: 7/10'' \<in> set (lines_of
         (formatTrackerDataForContext H number_mode_config hp_snapshot ''userStats'' u))"
    by (simp only: lines_of_append set_append Un_iff simp_thms)
  then show ?thesis by (simp add: format_hp_snapshot)
qed

text \<open>
  C9. Both resolvers should return a string on every value and never throw. They throw
  on a named item whose quantity cannot be compared with a number: for the item
  \<^verbatim>\<open>{name: 'Potion', quantity: {toString: 1}}\<close> the test \<^verbatim>\<open>field.quantity > 1\<close> raises a
  TypeError in both resolvers (and so does every value that contains the item, such as a
  list of items, and the locked wrapper of the item), although the same item with the
  quantity 2, or with no quantity, resolves to its name. The context formatter catches
  the error and returns the empty string for the whole category: a list of skills with
  that item costs the player stats their text.
\<close>

theorem resolvers_throw_on_unprintable_quantity:
  "getValue H unprintable_item = None
   \<and> getValue_historical H unprintable_item = None
   \<and> getValue H (JArr [JStr ''Sword'', unprintable_item]) = None
   \<and> getValue_historical H (JArr [JStr ''Sword'', unprintable_item]) = None
   \<and> getValue H (locked_wrapper unprintable_item False) = None
   \<and> getValue_historical H (locked_wrapper unprintable_item False) = None
   \<and> getValue H (JObj [(''name'', JStr ''Potion''), (''quantity'', JNum 2)]) = Some ''Potion (x2)''
   \<and> getValue_historical H (JObj [(''name'', JStr ''Potion''), (''quantity'', JNum 2)])
       = Some ''Potion (x2)''
   \<and> getValue H (JObj [(''name'', JStr ''Potion'')]) = Some ''Potion''
   \<and> getValue_historical H (JObj [(''name'', JStr ''Potion'')]) = Some ''Potion''
   \<and> formatTrackerDataForContext H cfg (JObj [(''skills'', JArr [unprintable_item])])
         ''userStats'' u = []
   \<and> formatTrackerDataForContext H cfg
         (JObj [(''skills'', JArr [JObj [(''name'', JStr ''Potion'')]])]) ''userStats'' u
       = u @ [CHR 0x27] @ ''s Stats:'' @ NL @ ''Skills: Potion'' @ NL"
proof -
  have "getValue H unprintable_item = None"
    and "getValue_historical H unprintable_item = None"
    and "getValue H (JArr [JStr ''Sword'', unprintable_item]) = None"
    and "getValue_historical H (JArr [JStr ''Sword'', unprintable_item]) = None"
    by (simp_all add: unprintable_item_def getValue_eqs getValue_historical_eqs lookup_def)
  moreover have "getValue H (locked_wrapper unprintable_item False) = None"
    and "getValue_historical H (locked_wrapper unprintable_item False) = None"
    by (simp_all add: getValue_locked_wrapper getValue_historical_locked_wrapper
        unprintable_item_def getValue_eqs getValue_historical_eqs lookup_def)
  moreover have "getValue H (JObj [(''name'', JStr ''Potion''), (''quantity'', JNum 2)])
        = Some ''Potion (x2)''"
    and "getValue_historical H (JObj [(''name'', JStr ''Potion''), (''quantity'', JNum 2)])
        = Some ''Potion (x2)''"
    and "getValue H (JObj [(''name'', JStr ''Potion'')]) = Some ''Potion''"
    and "getValue_historical H (JObj [(''name'', JStr ''Potion'')]) = Some ''Potion''"
    by (simp_all add: getValue_eqs getValue_historical_eqs lookup_def show_int_def
        show_nat.simps digit_char_def)
  moreover have "formatTrackerDataForContext H cfg (JObj [(''skills'', JArr [unprintable_item])])
         ''userStats'' u = []"
    by (simp add: unprintable_item_def context_eval getValues_def)
  moreover have "formatTrackerDataForContext H cfg
         (JObj [(''skills'', JArr [JObj [(''name'', JStr ''Potion'')]])]) ''userStats'' u
       = u @ [CHR 0x27] @ ''s Stats:'' @ NL @ ''Skills: Potion'' @ NL"
    by (simp add: context_eval getValues_def)
  ultimately show ?thesis by blast
qed

text \<open>
  C10. In \<^verbatim>\<open>generateTrackerExample\<close>, when at least one shown category has a payload
  that parses as JSON, the string that the function returns is the unified object of the
  entries of the categories that parse, and nothing else: it is the result for the same
  data without the payloads that give no entry, such as a payload in the old text format,
  whose fenced text is dropped. (The function returns unless a shown payload that gives
  no entry cannot be printed, which no text is.)
\<close>

theorem tracker_example_json_suppresses_legacy_text:
  assumes "json_entry H applyLocks (showUserStats S) (userStats D) ''userStats'' ''userStats'' \<noteq> None
     \<or> json_entry H applyLocks (showInfoBox S) (infoBox D) ''infoBox'' ''infoBox'' \<noteq> None
     \<or> json_entry H applyLocks (showCharacterThoughts S) (characterThoughts D)
          ''characters'' ''characters'' \<noteq> None"
  shows "(generateTrackerExample H applyLocks S D = Some r \<longrightarrow>
            r = trim (''{'' @ NL @ join ('','' @ NL) (json_entries H applyLocks S D) @ NL @ ''}''))
     \<and> (String (userStats D) \<noteq> None \<and> String (infoBox D) \<noteq> None
          \<and> String (characterThoughts D) \<noteq> None \<longrightarrow>
            generateTrackerExample H applyLocks S D =
              Some (trim (''{'' @ NL @ join ('','' @ NL) (json_entries H applyLocks S D) @ NL @ ''}''))
            \<and> generateTrackerExample H applyLocks S D =
              generateTrackerExample H applyLocks S (without_legacy_text H applyLocks S D))
     \<and> generateTrackerExample H applyLocks S (without_legacy_text H applyLocks S D) =
         Some (trim (''{'' @ NL @ join ('','' @ NL) (json_entries H applyLocks S D) @ NL @ ''}''))"
proof -
  let ?unified = "trim (''{'' @ NL @ join ('','' @ NL) (json_entries H applyLocks S D) @ NL @ ''}'')"
  from assms have ne: "json_entries H applyLocks S D \<noteq> []"
    by (auto simp: json_entries_def List.map_filter_simps split: option.splits)
  then have without: "generateTrackerExample H applyLocks S (without_legacy_text H applyLocks S D)
      = Some ?unified"
    by (rule generateTrackerExample_without_legacy_text)
  have partial: "r = ?unified" if "generateTrackerExample H applyLocks S D = Some r"
    using ne that by (rule generateTrackerExample_unified)
  have total: "generateTrackerExample H applyLocks S D = Some ?unified"
    if "String (userStats D) \<noteq> None" "String (infoBox D) \<noteq> None"
      "String (characterThoughts D) \<noteq> None"
  proof -
    from that obtain r' where r': "generateTrackerExample H applyLocks S D = Some r'"
      using generateTrackerExample_printable by blast
    with ne have "r' = ?unified" by (intro generateTrackerExample_unified)
    with r' show ?thesis by simp
  qed
  from partial total without show ?thesis by simp
qed

text \<open>
  Witness for C10: a JSON payload for the player stats suppresses the text payload of the
  scene information, which alone would have been shown between code fences.
\<close>

theorem tracker_example_json_suppresses_legacy_text_witness:
  "generateTrackerExample example_host keep_payload example_settings
     \<lparr>userStats = JStr hp_text, infoBox = JStr legacy_text, characterThoughts = JUndef\<rparr>
     = Some (''{'' @ NL @ ''  '' @ dq @ ''userStats'' @ dq @ '': '' @ hp_text @ NL @ ''}'')
   \<and> generateTrackerExample example_host keep_payload example_settings
     \<lparr>userStats = JStr hp_text, infoBox = JStr legacy_text, characterThoughts = JUndef\<rparr>
     = generateTrackerExample example_host keep_payload example_settings
     \<lparr>userStats = JStr hp_text, infoBox = JUndef, characterThoughts = JUndef\<rparr>
   \<and> generateTrackerExample example_host keep_payload example_settings
     \<lparr>userStats = JUndef, infoBox = JStr legacy_text, characterThoughts = JUndef\<rparr>
     = Some (fence @ NL @ legacy_text @ NL @ fence)"
proof -
  let ?D = "\<lparr>userStats = JStr hp_text, infoBox = JStr legacy_text, characterThoughts = JUndef\<rparr>"
  let ?unified = "trim (''{'' @ NL @ join ('','' @ NL)
               (json_entries example_host keep_payload example_settings ?D) @ NL @ ''}'')"
  have entry: "json_entry example_host keep_payload (showUserStats example_settings) (userStats ?D)
      ''userStats'' ''userStats'' = Some (''  '' @ dq @ ''userStats'' @ dq @ '': '' @ hp_text)"
    by (simp add: json_entry_def example_settings_def example_defs keep_payload_def)
  have legacy: "json_entry example_host keep_payload (showInfoBox example_settings) (infoBox ?D)
      ''infoBox'' ''infoBox'' = None"
    by (simp add: json_entry_def example_settings_def example_defs keep_payload_def)
  have entries: "json_entries example_host keep_payload example_settings ?D
      = [''  '' @ dq @ ''userStats'' @ dq @ '': '' @ hp_text]"
    using entry legacy by (simp add: json_entries_def List.map_filter_simps)
  have without: "without_legacy_text example_host keep_payload example_settings ?D
      = \<lparr>userStats = JStr hp_text, infoBox = JUndef, characterThoughts = JUndef\<rparr>"
    using entry legacy by (simp add: without_legacy_text_def)
  have alone: "generateTrackerExample example_host keep_payload example_settings
     \<lparr>userStats = JUndef, infoBox = JStr legacy_text, characterThoughts = JUndef\<rparr>
     = Some (fence @ NL @ legacy_text @ NL @ fence)"
    by (simp add: generateTrackerExample_def example_state_def example_category_def
        json_entry_def example_settings_def example_defs keep_payload_def Let_def trim_def
        is_space_def NL_def fence_def)
  have printable: "String (userStats ?D) \<noteq> None \<and> String (infoBox ?D) \<noteq> None
      \<and> String (characterThoughts ?D) \<noteq> None"
    by simp
  have parses: "json_entry example_host keep_payload (showUserStats example_settings)
      (userStats ?D) ''userStats'' ''userStats'' \<noteq> None" 
    using entry by simp
  have both: "generateTrackerExample example_host keep_payload example_settings ?D = Some ?unified
     \<and> generateTrackerExample example_host keep_payload example_settings ?D =
       generateTrackerExample example_host keep_payload example_settings
         (without_legacy_text example_host keep_payload example_settings ?D)"
    using tracker_example_json_suppresses_legacy_text
      [of example_host keep_payload example_settings ?D, OF disjI1, OF parses] printable
    by blast
  have unified: "?unified
      = ''{'' @ NL @ ''  '' @ dq @ ''userStats'' @ dq @ '': '' @ hp_text @ NL @ ''}''"
    unfolding entries by (simp add: trim_def is_space_def NL_def dq_def hp_text_def)
  from both have first: "generateTrackerExample example_host keep_payload example_settings ?D
      = Some (''{'' @ NL @ ''  '' @ dq @ ''userStats'' @ dq @ '': '' @ hp_text @ NL @ ''}'')"
    unfolding unified by (rule conjunct1)
  from both have second: "generateTrackerExample example_host keep_payload example_settings ?D
      = generateTrackerExample example_host keep_payload example_settings
          \<lparr>userStats = JStr hp_text, infoBox = JUndef, characterThoughts = JUndef\<rparr>"
    unfolding without by (rule conjunct2)
  from first second alone show ?thesis by (intro conjI)
qed

end
